theory Spec2Isabelle
  imports Complex_Main "HOL-Library.Sublist"
begin

section \<open>The pricing cache of eks-pricing-exporter\<close>

text \<open>
  A shallow embedding of \<^verbatim>\<open>pkg/pricing\<close> (the provider interface, the live AWS
  provider, the static provider and the repository) and of the node model's
  classification and price resolution (\<^verbatim>\<open>pkg/model\<close>).
\<close>

subsection \<open>Values of the Go program\<close>

text \<open>
  A Go \<^verbatim>\<open>float64\<close> is an IEEE 754 binary64 value. \<open>Fin x\<close> is the finite value \<open>x\<close>; the
  two infinities and the not-a-number value are constructors of their own. The two
  zeros are one value \<open>Fin 0\<close>: Go's \<^verbatim>\<open>==\<close> does not tell them apart, and neither does
  a product or a sum computed from them, which is all this program does with a price.
\<close>

datatype float64 = Fin real | PInf | NInf | NaN

text \<open>Go's \<^verbatim>\<open>==\<close> on \<^verbatim>\<open>float64\<close>: NaN compares unequal to everything, itself included.\<close>

fun feq :: "float64 \<Rightarrow> float64 \<Rightarrow> bool" where
  "feq (Fin a) (Fin b) = (a = b)"
| "feq PInf PInf = True"
| "feq NInf NInf = True"
| "feq _ _ = False"

text \<open>
  Rounding a real number to binary64, to nearest with ties to even. \<open>exponent64 x\<close> is
  the binary exponent of a positive \<open>x\<close>, kept within the normal range from -1022 to
  1023, so that the spacing \<open>2 ^ (e - 52)\<close> of the representable values around \<open>x\<close> is
  the subnormal spacing below the normal range. A result of magnitude \<open>2 ^ 1024\<close> or
  more is an overflow to the infinity of the same sign; a magnitude below half the
  least subnormal rounds to zero.
\<close>

definition pow2 :: "int \<Rightarrow> real" where
  "pow2 e = (if 0 \<le> e then 2 ^ nat e else 1 / 2 ^ nat (- e))"

fun exponentUp :: "nat \<Rightarrow> int \<Rightarrow> real \<Rightarrow> int" where
  "exponentUp n e x = (if n = 0 \<or> x < pow2 (e + 1) then e else exponentUp (n - 1) (e + 1) x)"

fun exponentDown :: "nat \<Rightarrow> int \<Rightarrow> real \<Rightarrow> int" where
  "exponentDown n e x = (if n = 0 \<or> pow2 e \<le> x then e else exponentDown (n - 1) (e - 1) x)"

definition exponent64 :: "real \<Rightarrow> int" where
  "exponent64 x = (if 1 \<le> x then exponentUp 1023 0 x else exponentDown 1021 (- 1) x)"

definition roundHalfEven :: "real \<Rightarrow> int" where
  "roundHalfEven q =
     (if q - of_int \<lfloor>q\<rfloor> < 1 / 2 then \<lfloor>q\<rfloor>
      else if 1 / 2 < q - of_int \<lfloor>q\<rfloor> then \<lfloor>q\<rfloor> + 1
      else if even \<lfloor>q\<rfloor> then \<lfloor>q\<rfloor> else \<lfloor>q\<rfloor> + 1)"

definition round64 :: "real \<Rightarrow> float64" where
  "round64 x =
     (if x = 0 then Fin 0
      else
        (let quantum = pow2 (exponent64 \<bar>x\<bar> - 52);
             r = of_int (roundHalfEven (\<bar>x\<bar> / quantum)) * quantum
         in if 2 ^ 1024 \<le> r then (if 0 < x then PInf else NInf)
            else Fin (if x < 0 then - r else r)))"

text \<open>
  Go's \<^verbatim>\<open>*\<close> and \<^verbatim>\<open>+\<close> on \<^verbatim>\<open>float64\<close>: the exact product or sum of two finite values,
  rounded to binary64, and the IEEE 754 rules for the special values. A decimal
  literal or a parsed decimal string \<open>d\<close> is the value \<open>round64 d\<close>.
\<close>

fun fmul :: "float64 \<Rightarrow> float64 \<Rightarrow> float64" where
  "fmul NaN _ = NaN"
| "fmul _ NaN = NaN"
| "fmul (Fin a) (Fin b) = round64 (a * b)"
| "fmul (Fin a) PInf = (if a = 0 then NaN else if 0 < a then PInf else NInf)"
| "fmul (Fin a) NInf = (if a = 0 then NaN else if 0 < a then NInf else PInf)"
| "fmul PInf (Fin b) = (if b = 0 then NaN else if 0 < b then PInf else NInf)"
| "fmul NInf (Fin b) = (if b = 0 then NaN else if 0 < b then NInf else PInf)"
| "fmul PInf PInf = PInf"
| "fmul PInf NInf = NInf"
| "fmul NInf PInf = NInf"
| "fmul NInf NInf = PInf"

fun fadd :: "float64 \<Rightarrow> float64 \<Rightarrow> float64" where
  "fadd NaN _ = NaN"
| "fadd _ NaN = NaN"
| "fadd (Fin a) (Fin b) = round64 (a + b)"
| "fadd (Fin a) PInf = PInf"
| "fadd (Fin a) NInf = NInf"
| "fadd PInf (Fin b) = PInf"
| "fadd NInf (Fin b) = NInf"
| "fadd PInf PInf = PInf"
| "fadd NInf NInf = NInf"
| "fadd PInf NInf = NaN"
| "fadd NInf PInf = NaN"

text \<open>
  A Go \<^verbatim>\<open>error\<close> value: \<^verbatim>\<open>errors.New\<close> and \<^verbatim>\<open>fmt.Errorf\<close> with \<^verbatim>\<open>%s\<close> give a message,
  \<^verbatim>\<open>fmt.Errorf\<close> with \<^verbatim>\<open>%w\<close> wraps an error, \<^verbatim>\<open>multierr.Combine\<close> joins several.
\<close>

datatype error = Err string | Wrap string error | Multi "error list"

text \<open>A \<^verbatim>\<open>time.Time\<close>, as an instant on the clock's axis; \<open>0\<close> is the zero value.\<close>

type_synonym Time = int

subsection \<open>Price tables and the provider interface (package \<^verbatim>\<open>pricing\<close>)\<close>

type_synonym OnDemandPriceList = "string \<rightharpoonup> float64"

type_synonym SpotPriceList = "string \<rightharpoonup> (string \<rightharpoonup> float64)"

record FargatePrice =
  VCPUPerHour :: float64
  GBPerHour :: float64

text \<open>
  The \<^verbatim>\<open>Provider\<close> interface. A Go method returning \<^verbatim>\<open>(T, error)\<close> is a sum: \<open>Inl\<close>
  is a non-nil error, \<open>Inr\<close> the value returned with a nil error. A provider value
  holds what its three methods return when the repository calls them; a call that
  panics does not return to the repository at all.
\<close>

record Provider =
  GetOnDemandPricing :: "error + OnDemandPriceList"
  GetSpotPricing :: "error + SpotPriceList"
  GetFargatePricing :: "error + FargatePrice"

subsection \<open>The repository (\<^verbatim>\<open>Repository\<close>)\<close>

text \<open>
  The fields of \<^verbatim>\<open>Repository\<close> that hold data. The mutex guards every read and write
  below; each method body is one critical section, so it is one state transition here.
  The provider is passed to the update functions.
\<close>

record Repository =
  onDemandUpdateTime :: Time
  onDemandPrices :: OnDemandPriceList
  spotUpdateTime :: Time
  spotPrices :: SpotPriceList
  fargateUpdateTime :: Time
  fargatePrice :: FargatePrice

text \<open>\<^verbatim>\<open>NewRepository\<close>: every data field has its zero value.\<close>

definition NewRepository :: Repository where
  "NewRepository =
     \<lparr>onDemandUpdateTime = 0, onDemandPrices = Map.empty,
      spotUpdateTime = 0, spotPrices = Map.empty,
      fargateUpdateTime = 0,
      fargatePrice = \<lparr>VCPUPerHour = Fin 0, GBPerHour = Fin 0\<rparr>\<rparr>"

text \<open>
  The three per-category refreshes. \<open>now\<close> is what \<^verbatim>\<open>time.Now()\<close> returns inside the
  critical section. The result is the repository afterwards and the error returned
  (\<open>None\<close> is nil).
\<close>

definition UpdateOnDemandPricing :: "Provider \<Rightarrow> Time \<Rightarrow> Repository \<Rightarrow> Repository \<times> error option" where
  "UpdateOnDemandPricing prov now pr =
     (case GetOnDemandPricing prov of
        Inl err \<Rightarrow> (pr, Some err)
      | Inr pricing \<Rightarrow> (pr\<lparr>onDemandPrices := pricing, onDemandUpdateTime := now\<rparr>, None))"

definition UpdateSpotPricing :: "Provider \<Rightarrow> Time \<Rightarrow> Repository \<Rightarrow> Repository \<times> error option" where
  "UpdateSpotPricing prov now pr =
     (case GetSpotPricing prov of
        Inl err \<Rightarrow> (pr, Some err)
      | Inr pricing \<Rightarrow> (pr\<lparr>spotPrices := pricing, spotUpdateTime := now\<rparr>, None))"

definition UpdateFargatePricing :: "Provider \<Rightarrow> Time \<Rightarrow> Repository \<Rightarrow> Repository \<times> error option" where
  "UpdateFargatePricing prov now pr =
     (case GetFargatePricing prov of
        Inl err \<Rightarrow> (pr, Some err)
      | Inr pricing \<Rightarrow> (pr\<lparr>fargatePrice := pricing, fargateUpdateTime := now\<rparr>, None))"

text \<open>
  The point lookups. Each returns the pair \<^verbatim>\<open>(price, found)\<close> of the Go method.
\<close>

definition OnDemandPrice :: "Repository \<Rightarrow> string \<Rightarrow> float64 \<times> bool" where
  "OnDemandPrice pr instanceType =
     (case onDemandPrices pr instanceType of
        None \<Rightarrow> (Fin 0, False)
      | Some price \<Rightarrow> (price, True))"

definition FargatePrice :: "Repository \<Rightarrow> float64 \<Rightarrow> float64 \<Rightarrow> float64 \<times> bool" where
  "FargatePrice pr cpu memory =
     (if feq (GBPerHour (fargatePrice pr)) (Fin 0) \<or> feq (VCPUPerHour (fargatePrice pr)) (Fin 0)
      then (Fin 0, False)
      else (fadd (fmul cpu (VCPUPerHour (fargatePrice pr)))
                 (fmul memory (GBPerHour (fargatePrice pr))), True))"

definition SpotPrice :: "Repository \<Rightarrow> string \<Rightarrow> string \<Rightarrow> float64 \<times> bool" where
  "SpotPrice pr instanceType zone =
     (case spotPrices pr instanceType of
        Some zones \<Rightarrow>
          (case zones zone of
             Some price \<Rightarrow> (price, True)
           | None \<Rightarrow> (Fin 0, False))
      | None \<Rightarrow> (Fin 0, False))"

subsection \<open>The static provider (\<^verbatim>\<open>StaticProvider\<close>)\<close>

text \<open>
  \<^verbatim>\<open>StaticProvider\<close> returns the package's table \<^verbatim>\<open>initialOnDemandPrices\<close> (a generated
  table, whatever its contents: it is an argument here), a fresh empty spot table and
  the zero \<^verbatim>\<open>FargatePrice\<close>, each with a nil error.
\<close>

definition StaticProvider :: "OnDemandPriceList \<Rightarrow> Provider" where
  "StaticProvider initialOnDemandPrices =
     \<lparr>GetOnDemandPricing = Inr initialOnDemandPrices,
      GetSpotPricing = Inr Map.empty,
      GetFargatePricing = Inr \<lparr>VCPUPerHour = Fin 0, GBPerHour = Fin 0\<rparr>\<rparr>"

subsection \<open>The live provider (\<^verbatim>\<open>AWSProvider\<close>)\<close>

text \<open>
  Library code is passed in: \<open>unmarshal\<close> is \<^verbatim>\<open>json.Unmarshal\<close> into the function's
  local \<^verbatim>\<open>priceItem\<close> struct (\<open>Inl\<close> its error), \<open>parseFloat\<close> is \<^verbatim>\<open>strconv.ParseFloat(_, 64)\<close>
  (\<open>None\<close> when it returns an error). A paginator is the list of what its successive
  \<^verbatim>\<open>NextPage\<close> calls return while \<^verbatim>\<open>HasMorePages\<close> holds: \<open>Inl\<close> an error, \<open>Inr\<close> a page.
\<close>

text \<open>\<^verbatim>\<open>strings.Contains\<close>.\<close>

fun Contains :: "string \<Rightarrow> string \<Rightarrow> bool" where
  "Contains [] substr = (substr = [])"
| "Contains (c # s) substr = (prefix substr (c # s) \<or> Contains s substr)"

text \<open>
  The \<^verbatim>\<open>Terms.OnDemand\<close> part of a price item: the terms by key, each with its
  \<^verbatim>\<open>PriceDimensions\<close> by key, each dimension reduced to its \<^verbatim>\<open>PricePerUnit.USD\<close> string.
  Both are Go maps; the lists are in the order the two \<^verbatim>\<open>range\<close> loops visit them.
\<close>

type_synonym Terms = "(string \<times> (string \<times> string) list) list"

text \<open>The USD strings in the order the nested loops over terms and dimensions reach them.\<close>

definition dimensions :: "Terms \<Rightarrow> string list" where
  "dimensions terms = concat (map (\<lambda>t. map snd (snd t)) terms)"

record OnDemandItem =
  AttrInstanceType :: string
  OnDemandTerms :: Terms

record FargateItem =
  UsageType :: string
  FargateTerms :: Terms

text \<open>The inner loops of \<^verbatim>\<open>parseOnDemandPage\<close> for one price item.\<close>

fun onDemandDimensions ::
  "(string \<Rightarrow> float64 option) \<Rightarrow> string \<Rightarrow> OnDemandPriceList \<Rightarrow> string list \<Rightarrow> OnDemandPriceList" where
  "onDemandDimensions parseFloat instanceType prices [] = prices"
| "onDemandDimensions parseFloat instanceType prices (usd # rest) =
     (case parseFloat usd of
        None \<Rightarrow> onDemandDimensions parseFloat instanceType prices rest
      | Some price \<Rightarrow>
          if feq price (Fin 0) then onDemandDimensions parseFloat instanceType prices rest
          else onDemandDimensions parseFloat instanceType (prices(instanceType \<mapsto> price)) rest)"

text \<open>\<^verbatim>\<open>parseOnDemandPage\<close>, over the page's \<^verbatim>\<open>PriceList\<close>; it returns the table and the error.\<close>

fun parseOnDemandPage ::
  "(string \<Rightarrow> error + OnDemandItem) \<Rightarrow> (string \<Rightarrow> float64 option) \<Rightarrow> OnDemandPriceList \<Rightarrow>
   string list \<Rightarrow> OnDemandPriceList \<times> error option" where
  "parseOnDemandPage unmarshal parseFloat prices [] = (prices, None)"
| "parseOnDemandPage unmarshal parseFloat prices (outer # rest) =
     (case unmarshal outer of
        Inl err \<Rightarrow> (prices, Some (Wrap ''decoding: '' err))
      | Inr pItem \<Rightarrow>
          if AttrInstanceType pItem = [] then parseOnDemandPage unmarshal parseFloat prices rest
          else parseOnDemandPage unmarshal parseFloat
                 (onDemandDimensions parseFloat (AttrInstanceType pItem) prices
                    (dimensions (OnDemandTerms pItem)))
                 rest)"

text \<open>The page loop of \<^verbatim>\<open>fetchOnDemandPricing\<close>, and the function itself.\<close>

fun fetchOnDemandPages ::
  "(string \<Rightarrow> error + OnDemandItem) \<Rightarrow> (string \<Rightarrow> float64 option) \<Rightarrow> OnDemandPriceList \<Rightarrow>
   (error + string list) list \<Rightarrow> error + OnDemandPriceList" where
  "fetchOnDemandPages unmarshal parseFloat prices [] = Inr prices"
| "fetchOnDemandPages unmarshal parseFloat prices (Inl err # rest) = Inl err"
| "fetchOnDemandPages unmarshal parseFloat prices (Inr output # rest) =
     (case parseOnDemandPage unmarshal parseFloat prices output of
        (prices', Some err) \<Rightarrow> Inl err
      | (prices', None) \<Rightarrow> fetchOnDemandPages unmarshal parseFloat prices' rest)"

definition fetchOnDemandPricing ::
  "(string \<Rightarrow> error + OnDemandItem) \<Rightarrow> (string \<Rightarrow> float64 option) \<Rightarrow>
   (error + string list) list \<Rightarrow> error + OnDemandPriceList" where
  "fetchOnDemandPricing unmarshal parseFloat pages =
     fetchOnDemandPages unmarshal parseFloat Map.empty pages"

text \<open>
  \<^verbatim>\<open>AWSProvider.GetOnDemandPricing\<close>. \<open>sharedPages\<close> are the pages of the query for
  shared-tenancy compute instances, \<open>metalPages\<close> those of the bare-metal query.
  \<^verbatim>\<open>lo.Assign\<close> merges the two maps, the second one winning on a common key.
\<close>

definition AWSProvider_GetOnDemandPricing ::
  "(string \<Rightarrow> error + OnDemandItem) \<Rightarrow> (string \<Rightarrow> float64 option) \<Rightarrow>
   (error + string list) list \<Rightarrow> (error + string list) list \<Rightarrow> error + OnDemandPriceList" where
  "AWSProvider_GetOnDemandPricing unmarshal parseFloat sharedPages metalPages =
     (case fetchOnDemandPricing unmarshal parseFloat sharedPages of
        Inl err \<Rightarrow> Inl err
      | Inr onDemandPrices' \<Rightarrow>
          (case fetchOnDemandPricing unmarshal parseFloat metalPages of
             Inl err \<Rightarrow> Inl err
           | Inr onDemandMetalPrices \<Rightarrow>
               if onDemandPrices' = Map.empty \<or> onDemandMetalPrices = Map.empty
               then Inl (Err ''no on-demand pricing found'')
               else Inr (onDemandPrices' ++ onDemandMetalPrices)))"

text \<open>
  A record of the spot price history (\<^verbatim>\<open>types.SpotPrice\<close> of the SDK); the pointer
  fields are options. \<^verbatim>\<open>aws.ToString\<close> reads a nil pointer as the empty string.
\<close>

record SpotPriceHistory =
  sphSpotPrice :: "string option"
  sphTimestamp :: "Time option"
  sphInstanceType :: string
  sphAvailabilityZone :: "string option"

definition ToString :: "string option \<Rightarrow> string" where
  "ToString p = (case p of None \<Rightarrow> [] | Some s \<Rightarrow> s)"

text \<open>The body of the record loop of \<^verbatim>\<open>GetSpotPricing\<close>, the record loop and the page loop.\<close>

definition spotRecord ::
  "(string \<Rightarrow> float64 option) \<Rightarrow> SpotPriceList \<Rightarrow> SpotPriceHistory \<Rightarrow> SpotPriceList" where
  "spotRecord parseFloat prices sph =
     (case parseFloat (ToString (sphSpotPrice sph)) of
        None \<Rightarrow> prices
      | Some spotPrice \<Rightarrow>
          (case sphTimestamp sph of
             None \<Rightarrow> prices
           | Some ts \<Rightarrow>
               (case prices (sphInstanceType sph) of
                  None \<Rightarrow>
                    prices(sphInstanceType sph \<mapsto> [ToString (sphAvailabilityZone sph) \<mapsto> spotPrice])
                | Some zones \<Rightarrow>
                    prices(sphInstanceType sph \<mapsto> zones(ToString (sphAvailabilityZone sph) \<mapsto> spotPrice)))))"

fun spotRecords ::
  "(string \<Rightarrow> float64 option) \<Rightarrow> SpotPriceList \<Rightarrow> SpotPriceHistory list \<Rightarrow> SpotPriceList" where
  "spotRecords parseFloat prices [] = prices"
| "spotRecords parseFloat prices (sph # rest) =
     spotRecords parseFloat (spotRecord parseFloat prices sph) rest"

fun spotPages ::
  "(string \<Rightarrow> float64 option) \<Rightarrow> SpotPriceList \<Rightarrow> (error + SpotPriceHistory list) list \<Rightarrow>
   error + SpotPriceList" where
  "spotPages parseFloat prices [] = Inr prices"
| "spotPages parseFloat prices (Inl err # rest) = Inl err"
| "spotPages parseFloat prices (Inr output # rest) =
     spotPages parseFloat (spotRecords parseFloat prices output) rest"

definition AWSProvider_GetSpotPricing ::
  "(string \<Rightarrow> float64 option) \<Rightarrow> (error + SpotPriceHistory list) list \<Rightarrow> error + SpotPriceList" where
  "AWSProvider_GetSpotPricing parseFloat pages =
     (case spotPages parseFloat Map.empty pages of
        Inl err \<Rightarrow> Inl err
      | Inr prices \<Rightarrow>
          if prices = Map.empty then Inl (Err ''no spot pricing found'') else Inr prices)"

text \<open>
  The inner loops of \<^verbatim>\<open>parseFargatePage\<close> for one relevant price item named \<open>name\<close>.
  \<open>Inl\<close> is the return of \<^verbatim>\<open>nil\<close> with the error from inside the loops.
\<close>

fun fargateDimensions ::
  "(string \<Rightarrow> float64 option) \<Rightarrow> string \<Rightarrow> FargatePrice \<Rightarrow> string list \<Rightarrow> error + FargatePrice" where
  "fargateDimensions parseFloat name fargPrice [] = Inr fargPrice"
| "fargateDimensions parseFloat name fargPrice (usd # rest) =
     (case parseFloat usd of
        None \<Rightarrow> fargateDimensions parseFloat name fargPrice rest
      | Some price \<Rightarrow>
          if feq price (Fin 0) then fargateDimensions parseFloat name fargPrice rest
          else if Contains name ''vCPU-Hours'' then
            fargateDimensions parseFloat name (fargPrice\<lparr>VCPUPerHour := price\<rparr>) rest
          else if Contains name ''GB-Hours'' then
            fargateDimensions parseFloat name (fargPrice\<lparr>GBPerHour := price\<rparr>) rest
          else Inl (Err (''unsupported fargate price information found: '' @ name)))"

text \<open>
  \<^verbatim>\<open>parseFargatePage\<close> returns a pointer and an error, and only two shapes of the pair:
  \<^verbatim>\<open>(nil, err)\<close>, here \<open>Inl err\<close>, and \<^verbatim>\<open>(fargatePrice, nil)\<close>, the pointer it was given,
  here \<open>Inr\<close> of the struct it points to after the updates.
\<close>

fun parseFargatePage ::
  "(string \<Rightarrow> error + FargateItem) \<Rightarrow> (string \<Rightarrow> float64 option) \<Rightarrow> FargatePrice \<Rightarrow>
   string list \<Rightarrow> error + FargatePrice" where
  "parseFargatePage unmarshal parseFloat fargPrice [] = Inr fargPrice"
| "parseFargatePage unmarshal parseFloat fargPrice (outer # rest) =
     (case unmarshal outer of
        Inl err \<Rightarrow> Inl (Wrap ''decoding: '' err)
      | Inr pItem \<Rightarrow>
          if \<not> Contains (UsageType pItem) ''Fargate''
          then parseFargatePage unmarshal parseFloat fargPrice rest
          else
            (case fargateDimensions parseFloat (UsageType pItem) fargPrice
                    (dimensions (FargateTerms pItem)) of
               Inl err \<Rightarrow> Inl err
             | Inr fargPrice' \<Rightarrow> parseFargatePage unmarshal parseFloat fargPrice' rest))"

text \<open>What a call does: it returns a value, or it panics.\<close>

datatype 'a outcome = Returned 'a | Panicked

text \<open>
  The page loop of \<^verbatim>\<open>GetFargatePricing\<close>. After
  \<^verbatim>\<open>price, err = p.parseFargatePage(price, output)\<close> with a non-nil error, \<^verbatim>\<open>price\<close> is
  the nil pointer, and the statement \<^verbatim>\<open>return *price, err\<close> dereferences it.
\<close>

fun fargatePages ::
  "(string \<Rightarrow> error + FargateItem) \<Rightarrow> (string \<Rightarrow> float64 option) \<Rightarrow> FargatePrice \<Rightarrow>
   (error + string list) list \<Rightarrow> (error + FargatePrice) outcome" where
  "fargatePages unmarshal parseFloat price [] = Returned (Inr price)"
| "fargatePages unmarshal parseFloat price (Inl err # rest) = Returned (Inl err)"
| "fargatePages unmarshal parseFloat price (Inr output # rest) =
     (case parseFargatePage unmarshal parseFloat price output of
        Inl err \<Rightarrow> Panicked
      | Inr price' \<Rightarrow> fargatePages unmarshal parseFloat price' rest)"

definition AWSProvider_GetFargatePricing ::
  "(string \<Rightarrow> error + FargateItem) \<Rightarrow> (string \<Rightarrow> float64 option) \<Rightarrow>
   (error + string list) list \<Rightarrow> (error + FargatePrice) outcome" where
  "AWSProvider_GetFargatePricing unmarshal parseFloat pages =
     fargatePages unmarshal parseFloat \<lparr>VCPUPerHour = Fin 0, GBPerHour = Fin 0\<rparr> pages"

subsection \<open>Refreshing all categories (\<^verbatim>\<open>Repository.UpdatePricing\<close>)\<close>

text \<open>
  \<^verbatim>\<open>UpdatePricing\<close> starts one goroutine per category. Each runs its refresh and appends
  a non-nil error to the shared slice \<^verbatim>\<open>errs\<close>.
\<close>

datatype goroutine = RefreshOnDemand | RefreshSpot | RefreshFargate

fun runGoroutine ::
  "Provider \<Rightarrow> Time \<Rightarrow> goroutine \<Rightarrow> Repository \<times> error list \<Rightarrow> Repository \<times> error list" where
  "runGoroutine prov now RefreshOnDemand (pr, errs) =
     (case UpdateOnDemandPricing prov now pr of
        (pr', None) \<Rightarrow> (pr', errs)
      | (pr', Some err) \<Rightarrow> (pr', errs @ [err]))"
| "runGoroutine prov now RefreshSpot (pr, errs) =
     (case UpdateSpotPricing prov now pr of
        (pr', None) \<Rightarrow> (pr', errs)
      | (pr', Some err) \<Rightarrow> (pr', errs @ [err]))"
| "runGoroutine prov now RefreshFargate (pr, errs) =
     (case UpdateFargatePricing prov now pr of
        (pr', None) \<Rightarrow> (pr', errs)
      | (pr', Some err) \<Rightarrow> (pr', errs @ [err]))"

text \<open>
  \<^verbatim>\<open>multierr.Combine\<close> on non-nil errors: nil for none, the error itself for one, and for
  more a multi-error of the errors in order, with the errors of a multi-error among
  them listed in its place.
\<close>

fun multiErrors :: "error \<Rightarrow> error list" where
  "multiErrors (Multi nested) = nested"
| "multiErrors err = [err]"

fun Combine :: "error list \<Rightarrow> error option" where
  "Combine [] = None"
| "Combine [err] = Some err"
| "Combine errs = Some (Multi (concat (map multiErrors errs)))"

text \<open>
  The function body has three \<^verbatim>\<open>go\<close> statements, with \<^verbatim>\<open>wg.Add(1)\<close> before each and
  \<^verbatim>\<open>wg.Done()\<close> deferred in each goroutine, and then reads \<^verbatim>\<open>len(errs)\<close>; there is no
  \<^verbatim>\<open>wg.Wait()\<close>. So nothing orders the goroutines before that read, and a run is
  described by its schedule: \<open>finished\<close> lists the goroutines that have completed when
  the caller reads \<^verbatim>\<open>errs\<close>, in the order they completed, and \<open>pending\<close> those that
  complete afterwards. \<open>clock g\<close> is the time goroutine \<open>g\<close> reads. The result is the
  returned error, the repository at the return, and the repository once every
  goroutine is done.
\<close>

definition UpdatePricing ::
  "Provider \<Rightarrow> (goroutine \<Rightarrow> Time) \<Rightarrow> goroutine list \<Rightarrow> goroutine list \<Rightarrow> Repository \<Rightarrow>
   error option \<times> Repository \<times> Repository" where
  "UpdatePricing prov clock finished pending pr =
     (let atRead = fold (\<lambda>g. runGoroutine prov (clock g) g) finished (pr, []);
          result = (if length (snd atRead) \<noteq> 0 then Combine (snd atRead) else None);
          atEnd = fold (\<lambda>g. runGoroutine prov (clock g) g) pending atRead
      in (result, fst atRead, fst atEnd))"

subsection \<open>Timestamps over a run of refreshes\<close>

text \<open>The three accessors \<^verbatim>\<open>OnDemandLastUpdated\<close>, \<^verbatim>\<open>SpotLastUpdated\<close>, \<^verbatim>\<open>FargateLastUpdated\<close>.\<close>

definition OnDemandLastUpdated :: "Repository \<Rightarrow> Time" where
  "OnDemandLastUpdated pr = onDemandUpdateTime pr"

definition SpotLastUpdated :: "Repository \<Rightarrow> Time" where
  "SpotLastUpdated pr = spotUpdateTime pr"

definition FargateLastUpdated :: "Repository \<Rightarrow> Time" where
  "FargateLastUpdated pr = fargateUpdateTime pr"

text \<open>
  The refresh of a category and the accessor of its timestamp, by the name of the
  goroutine that runs the refresh.
\<close>

fun refreshCategory ::
  "goroutine \<Rightarrow> Provider \<Rightarrow> Time \<Rightarrow> Repository \<Rightarrow> Repository \<times> error option" where
  "refreshCategory RefreshOnDemand prov now pr = UpdateOnDemandPricing prov now pr"
| "refreshCategory RefreshSpot prov now pr = UpdateSpotPricing prov now pr"
| "refreshCategory RefreshFargate prov now pr = UpdateFargatePricing prov now pr"

fun lastUpdated :: "goroutine \<Rightarrow> Repository \<Rightarrow> Time" where
  "lastUpdated RefreshOnDemand pr = OnDemandLastUpdated pr"
| "lastUpdated RefreshSpot pr = SpotLastUpdated pr"
| "lastUpdated RefreshFargate pr = FargateLastUpdated pr"

text \<open>
  The refreshes are the only writers of the repository, each under the lock. A run is
  the list of the refreshes in the order they take the lock, each with what the
  provider answers to it and the time it reads inside the lock. The clock moves forward
  when every reading is later than the one before, the first one later than the zero
  time.
\<close>

fun runRefreshes :: "(goroutine \<times> Provider \<times> Time) list \<Rightarrow> Repository \<Rightarrow> Repository" where
  "runRefreshes [] pr = pr"
| "runRefreshes ((g, prov, now) # rest) pr =
     runRefreshes rest (fst (refreshCategory g prov now pr))"

fun clockForward :: "Time \<Rightarrow> Time list \<Rightarrow> bool" where
  "clockForward t [] = True"
| "clockForward t (now # rest) = (t < now \<and> clockForward now rest)"

subsection \<open>The node model (package \<^verbatim>\<open>model\<close>)\<close>

text \<open>
  A pod, as far as the node needs it: what its method \<^verbatim>\<open>FargateCapacityProvisioned\<close>
  returns, \<^verbatim>\<open>(cpu, mem, true)\<close> as \<open>Some (cpu, mem)\<close> and \<^verbatim>\<open>(_, _, false)\<close> as \<open>None\<close>.
  The node only uses the method's result, which is a field here.
\<close>

record Pod =
  FargateCapacityProvisioned :: "(float64 \<times> float64) option"

text \<open>
  A node: the labels of the Kubernetes node object, the bound pods in the order
  \<^verbatim>\<open>Pods()\<close> lists them, and the price field.
\<close>

record Node =
  labels :: "string \<rightharpoonup> string"
  pods :: "Pod list"
  Price :: float64

text \<open>Indexing a Go map of strings: a missing key reads as the empty string.\<close>

definition label :: "Node \<Rightarrow> string \<Rightarrow> string" where
  "label n k = (case labels n k of None \<Rightarrow> [] | Some v \<Rightarrow> v)"

datatype NodeCapacityType = NodeUnknownCapacityType | NodeOnDemand | NodeSpot | NodeFargate

definition IsOnDemand :: "Node \<Rightarrow> bool" where
  "IsOnDemand n =
     (label n ''karpenter.sh/capacity-type'' = ''on-demand'' \<or>
      label n ''eks.amazonaws.com/capacityType'' = ''ON_DEMAND'')"

definition IsSpot :: "Node \<Rightarrow> bool" where
  "IsSpot n =
     (label n ''karpenter.sh/capacity-type'' = ''spot'' \<or>
      label n ''eks.amazonaws.com/capacityType'' = ''SPOT'')"

definition IsFargate :: "Node \<Rightarrow> bool" where
  "IsFargate n = (label n ''eks.amazonaws.com/compute-type'' = ''fargate'')"

definition CapacityType :: "Node \<Rightarrow> NodeCapacityType" where
  "CapacityType n =
     (if IsOnDemand n then NodeOnDemand
      else if IsSpot n then NodeSpot
      else if IsFargate n then NodeFargate
      else NodeUnknownCapacityType)"

text \<open>
  \<^verbatim>\<open>InstanceType\<close> and \<^verbatim>\<open>Zone\<close>. \<open>sprintf\<close> stands for
  \<^verbatim>\<open>fmt.Sprintf("%gvCPU-%gGB", cpu, mem)\<close>; the two label keys are the values of
  \<^verbatim>\<open>v1.LabelInstanceTypeStable\<close> and \<^verbatim>\<open>v1.LabelTopologyZone\<close>.
\<close>

definition InstanceType :: "(float64 \<Rightarrow> float64 \<Rightarrow> string) \<Rightarrow> Node \<Rightarrow> string" where
  "InstanceType sprintf n =
     (if IsFargate n then
        (if length (pods n) = 1 then
           (case FargateCapacityProvisioned (hd (pods n)) of
              Some (cpu, mem) \<Rightarrow> sprintf cpu mem
            | None \<Rightarrow> ''Fargate'')
         else ''Fargate'')
      else label n ''node.kubernetes.io/instance-type'')"

definition Zone :: "Node \<Rightarrow> string" where
  "Zone n = label n ''topology.kubernetes.io/zone''"

definition HasPrice :: "Node \<Rightarrow> bool" where
  "HasPrice n = feq (Price n) (Price n)"

text \<open>\<^verbatim>\<open>UpdatePrice\<close>: the node with its price field set from the repository.\<close>

definition UpdatePrice :: "(float64 \<Rightarrow> float64 \<Rightarrow> string) \<Rightarrow> Repository \<Rightarrow> Node \<Rightarrow> Node" where
  "UpdatePrice sprintf pricingRepository n0 =
     (let n = n0\<lparr>Price := NaN\<rparr> in
      if IsOnDemand n then
        (case OnDemandPrice pricingRepository (InstanceType sprintf n) of
           (price, ok) \<Rightarrow> if ok then n\<lparr>Price := price\<rparr> else n)
      else if IsSpot n then
        (case SpotPrice pricingRepository (InstanceType sprintf n) (Zone n) of
           (price, ok) \<Rightarrow> if ok then n\<lparr>Price := price\<rparr> else n)
      else if IsFargate n \<and> length (pods n) = 1 then
        (case FargateCapacityProvisioned (hd (pods n)) of
           Some (cpu, mem) \<Rightarrow>
             (case FargatePrice pricingRepository cpu mem of
                (price, ok) \<Rightarrow> if ok then n\<lparr>Price := price\<rparr> else n)
         | None \<Rightarrow> n)
      else n)"


subsection \<open>Conditions of the loops, by name\<close>

text \<open>
  The test \<^verbatim>\<open>err != nil || price == 0\<close> on a dimension's USD string, under which
  \<^verbatim>\<open>parseOnDemandPage\<close> and \<^verbatim>\<open>parseFargatePage\<close> continue with the next dimension.
\<close>

definition skippedPrice :: "(string \<Rightarrow> float64 option) \<Rightarrow> string \<Rightarrow> bool" where
  "skippedPrice parseFloat usd =
     (case parseFloat usd of None \<Rightarrow> True | Some price \<Rightarrow> feq price (Fin 0))"

text \<open>
  A price-list entry that \<^verbatim>\<open>parseFargatePage\<close> decodes and passes over because its usage
  type does not contain \<^verbatim>\<open>Fargate\<close>.
\<close>

definition irrelevantRecord :: "(string \<Rightarrow> error + FargateItem) \<Rightarrow> string \<Rightarrow> bool" where
  "irrelevantRecord unmarshal outer =
     (case unmarshal outer of
        Inl err \<Rightarrow> False
      | Inr pItem \<Rightarrow> \<not> Contains (UsageType pItem) ''Fargate'')"

text \<open>
  A spot record that passes both \<^verbatim>\<open>continue\<close> tests of \<^verbatim>\<open>GetSpotPricing\<close>: its price
  parses and its timestamp is present. Its key is the pair the table is indexed by,
  and \<open>spotEntry\<close> reads the two-level table at such a pair.
\<close>

definition usableSpot :: "(string \<Rightarrow> float64 option) \<Rightarrow> SpotPriceHistory \<Rightarrow> bool" where
  "usableSpot parseFloat sph =
     (parseFloat (ToString (sphSpotPrice sph)) \<noteq> None \<and> sphTimestamp sph \<noteq> None)"

definition spotKey :: "SpotPriceHistory \<Rightarrow> string \<times> string" where
  "spotKey sph = (sphInstanceType sph, ToString (sphAvailabilityZone sph))"

definition spotEntry :: "SpotPriceList \<Rightarrow> string \<times> string \<Rightarrow> float64 option" where
  "spotEntry prices key =
     (case prices (fst key) of None \<Rightarrow> None | Some zones \<Rightarrow> zones (snd key))"

subsection \<open>Sample inputs\<close>

text \<open>
  Concrete responses of the library functions and of the AWS endpoints, used where a
  statement is evaluated. Price-list documents are named by short strings.
\<close>

definition sampleParseFloat :: "string \<Rightarrow> float64 option" where
  "sampleParseFloat =
     map_of [(''0.096'', round64 0.096), (''4.608'', round64 4.608), (''0.03'', round64 0.03),
             (''0.035'', round64 0.035), (''0.99'', round64 0.99), (''0.0125'', round64 0.0125),
             (''0.10'', round64 0.10), (''0.0000000000'', Fin 0)]"

definition sampleUnmarshalOnDemand :: "string \<Rightarrow> error + OnDemandItem" where
  "sampleUnmarshalOnDemand doc =
     (if doc = ''doc-m5-large'' then
        Inr \<lparr>AttrInstanceType = ''m5.large'',
             OnDemandTerms = [(''term1'', [(''dim1'', ''0.096'')])]\<rparr>
      else if doc = ''doc-m5-metal-free'' then
        Inr \<lparr>AttrInstanceType = ''m5.metal'',
             OnDemandTerms = [(''term1'', [(''dim1'', ''0.0000000000'')])]\<rparr>
      else if doc = ''doc-m5-metal'' then
        Inr \<lparr>AttrInstanceType = ''m5.metal'',
             OnDemandTerms = [(''term1'', [(''dim1'', ''4.608'')])]\<rparr>
      else Inl (Err ''unexpected end of JSON input''))"

definition sampleUnmarshalFargate :: "string \<Rightarrow> error + FargateItem" where
  "sampleUnmarshalFargate doc =
     (if doc = ''doc-cluster'' then
        Inr \<lparr>UsageType = ''USE1-AmazonEKS-Hours:perCluster'',
             FargateTerms = [(''term1'', [(''dim1'', ''0.10'')])]\<rparr>
      else if doc = ''doc-drift'' then
        Inr \<lparr>UsageType = ''USE1-Fargate-Other-Hours'',
             FargateTerms = [(''term1'', [(''dim1'', ''0.0125'')])]\<rparr>
      else if doc = ''doc-drift-free'' then
        Inr \<lparr>UsageType = ''USE1-Fargate-Other-Hours'',
             FargateTerms = [(''term1'', [(''dim1'', ''0.0000000000''), (''dim2'', ''n/a'')])]\<rparr>
      else Inl (Err ''unexpected end of JSON input''))"

definition sampleSpot :: "string \<Rightarrow> string \<Rightarrow> string \<Rightarrow> Time option \<Rightarrow> SpotPriceHistory" where
  "sampleSpot instanceType az price ts =
     \<lparr>sphSpotPrice = Some price, sphTimestamp = ts, sphInstanceType = instanceType,
      sphAvailabilityZone = Some az\<rparr>"

definition sampleNode :: "(string \<rightharpoonup> string) \<Rightarrow> Pod list \<Rightarrow> Node" where
  "sampleNode lbls ps = \<lparr>labels = lbls, pods = ps, Price = Fin 3\<rparr>"

definition sampleRepository :: Repository where
  "sampleRepository =
     NewRepository\<lparr>fargatePrice :=
       \<lparr>VCPUPerHour = round64 0.04048, GBPerHour = round64 0.004445\<rparr>\<rparr>"

definition sampleProvider :: Provider where
  "sampleProvider =
     \<lparr>GetOnDemandPricing = Inr [''m5.large'' \<mapsto> round64 0.096],
      GetSpotPricing = Inl (Err ''RequestError: send request failed''),
      GetFargatePricing = Inr \<lparr>VCPUPerHour = round64 0.04048, GBPerHour = round64 0.004445\<rparr>\<rparr>"

definition sampleLiveProvider :: Provider where
  "sampleLiveProvider =
     \<lparr>GetOnDemandPricing =
        AWSProvider_GetOnDemandPricing sampleUnmarshalOnDemand sampleParseFloat
          [Inr [''doc-m5-large'']] [Inr [''doc-m5-metal'']],
      GetSpotPricing =
        AWSProvider_GetSpotPricing sampleParseFloat
          [Inr [sampleSpot ''m5.large'' ''us-east-1a'' ''0.03'' (Some 1)]],
      GetFargatePricing = Inr \<lparr>VCPUPerHour = round64 0.04048, GBPerHour = round64 0.004445\<rparr>\<rparr>"

section \<open>Properties\<close>

subsection \<open>Rounding at concrete values\<close>

lemmas round64_eval = round64_def exponent64_def pow2_def roundHalfEven_def Let_def

lemma round64_tenths:
  "round64 0.1 = Fin (3602879701896397 / 2 ^ 55)"
  "round64 0.2 = Fin (3602879701896397 / 2 ^ 54)"
  "round64 0.3 = Fin (5404319552844595 / 2 ^ 54)"
  "fadd (round64 0.1) (round64 0.2) = Fin (1351079888211149 / 2 ^ 52)"
  "\<not> feq (fadd (round64 0.1) (round64 0.2)) (round64 0.3)"
  by (simp_all add: round64_eval)

lemma round64_range:
  "fmul (Fin (2 ^ 1023)) (Fin 2) = PInf"
  "fmul (Fin (1 / 2 ^ 1074)) (Fin (1 / 4)) = Fin 0"
  by (simp_all add: round64_eval)

lemma round64_sample_rates:
  "round64 0.04048 = Fin (2916891406655323 / 2 ^ 56)"
  "round64 0.004445 = Fin (5124736087977435 / 2 ^ 60)"
  "round64 0.024685 = Fin (1778741708826251 / 2 ^ 56)"
  by (simp_all add: round64_eval)

lemma fmul_fadd_example:
  "fadd (fmul (Fin 0.5) (round64 0.04048)) (fmul (Fin 1.0) (round64 0.004445)) =
     Fin (7114966835305005 / 2 ^ 58)"
  by (simp add: round64_eval)

subsection \<open>A failed refresh changes nothing\<close>

text \<open>
  Claim C2. For each of the three per-category refreshes: when the provider's fetch
  returns an error, the refresh returns that same error and the repository afterwards
  is the repository before, so the failing category's table and timestamp and those of
  the other two categories are all as they were.
\<close>

theorem refresh_failure_keeps_repository:
  "(GetOnDemandPricing prov = Inl e \<longrightarrow> UpdateOnDemandPricing prov now pr = (pr, Some e)) \<and>
   (GetSpotPricing prov = Inl e \<longrightarrow> UpdateSpotPricing prov now pr = (pr, Some e)) \<and>
   (GetFargatePricing prov = Inl e \<longrightarrow> UpdateFargatePricing prov now pr = (pr, Some e))"
  by (simp add: UpdateOnDemandPricing_def UpdateSpotPricing_def UpdateFargatePricing_def)

theorem refresh_failure_keeps_repository_witness:
  "GetOnDemandPricing \<lparr>GetOnDemandPricing = Inl (Err ''timeout''), GetSpotPricing = Inl (Err ''timeout''),
       GetFargatePricing = Inl (Err ''timeout'')\<rparr> = Inl (Err ''timeout'') \<and>
   UpdateOnDemandPricing \<lparr>GetOnDemandPricing = Inl (Err ''timeout''), GetSpotPricing = Inl (Err ''timeout''),
       GetFargatePricing = Inl (Err ''timeout'')\<rparr> 7
       (NewRepository\<lparr>onDemandPrices := [''m5.large'' \<mapsto> round64 0.096], onDemandUpdateTime := 3\<rparr>)
     = (NewRepository\<lparr>onDemandPrices := [''m5.large'' \<mapsto> round64 0.096], onDemandUpdateTime := 3\<rparr>,
        Some (Err ''timeout'')) \<and>
   UpdateSpotPricing \<lparr>GetOnDemandPricing = Inl (Err ''timeout''), GetSpotPricing = Inl (Err ''timeout''),
       GetFargatePricing = Inl (Err ''timeout'')\<rparr> 7
       (NewRepository\<lparr>onDemandPrices := [''m5.large'' \<mapsto> round64 0.096], onDemandUpdateTime := 3\<rparr>)
     = (NewRepository\<lparr>onDemandPrices := [''m5.large'' \<mapsto> round64 0.096], onDemandUpdateTime := 3\<rparr>,
        Some (Err ''timeout'')) \<and>
   UpdateFargatePricing \<lparr>GetOnDemandPricing = Inl (Err ''timeout''), GetSpotPricing = Inl (Err ''timeout''),
       GetFargatePricing = Inl (Err ''timeout'')\<rparr> 7
       (NewRepository\<lparr>onDemandPrices := [''m5.large'' \<mapsto> round64 0.096], onDemandUpdateTime := 3\<rparr>)
     = (NewRepository\<lparr>onDemandPrices := [''m5.large'' \<mapsto> round64 0.096], onDemandUpdateTime := 3\<rparr>,
        Some (Err ''timeout''))"
  using refresh_failure_keeps_repository
    [of "\<lparr>GetOnDemandPricing = Inl (Err ''timeout''), GetSpotPricing = Inl (Err ''timeout''),
          GetFargatePricing = Inl (Err ''timeout'')\<rparr>" "Err ''timeout''" 7
        "NewRepository\<lparr>onDemandPrices := [''m5.large'' \<mapsto> round64 0.096], onDemandUpdateTime := 3\<rparr>"]
  by simp

subsection \<open>Node classification\<close>

text \<open>
  Claim C5. Classification tests the on-demand indicators first, then the spot
  indicators, then the compute-type label: a node with an on-demand indicator of either
  labelling scheme is OnDemand whatever its other labels are (a spot indicator of the
  other scheme included); without one, a spot indicator gives Spot; without either, the
  fargate compute type gives Fargate; a label set with none of the indicators is Unknown.
\<close>

theorem capacity_type_precedence:
  "((label n ''karpenter.sh/capacity-type'' = ''on-demand'' \<or>
     label n ''eks.amazonaws.com/capacityType'' = ''ON_DEMAND'') \<longrightarrow>
      CapacityType n = NodeOnDemand) \<and>
   (\<not> IsOnDemand n \<and>
     (label n ''karpenter.sh/capacity-type'' = ''spot'' \<or>
      label n ''eks.amazonaws.com/capacityType'' = ''SPOT'') \<longrightarrow>
      CapacityType n = NodeSpot) \<and>
   (\<not> IsOnDemand n \<and> \<not> IsSpot n \<and> label n ''eks.amazonaws.com/compute-type'' = ''fargate'' \<longrightarrow>
      CapacityType n = NodeFargate) \<and>
   (\<not> IsOnDemand n \<and> \<not> IsSpot n \<and> \<not> IsFargate n \<longrightarrow>
      CapacityType n = NodeUnknownCapacityType)"
  by (simp add: CapacityType_def IsOnDemand_def IsSpot_def IsFargate_def)

theorem capacity_type_precedence_witness:
  "IsSpot (sampleNode [''karpenter.sh/capacity-type'' \<mapsto> ''spot'',
                       ''eks.amazonaws.com/capacityType'' \<mapsto> ''ON_DEMAND''] []) \<and>
   CapacityType (sampleNode [''karpenter.sh/capacity-type'' \<mapsto> ''spot'',
                             ''eks.amazonaws.com/capacityType'' \<mapsto> ''ON_DEMAND''] []) = NodeOnDemand \<and>
   CapacityType (sampleNode [''eks.amazonaws.com/capacityType'' \<mapsto> ''SPOT'',
                             ''eks.amazonaws.com/compute-type'' \<mapsto> ''fargate''] []) = NodeSpot \<and>
   CapacityType (sampleNode [''eks.amazonaws.com/compute-type'' \<mapsto> ''fargate''] []) = NodeFargate \<and>
   CapacityType (sampleNode [''node.kubernetes.io/instance-type'' \<mapsto> ''m5.large''] []) =
     NodeUnknownCapacityType"
  using
    capacity_type_precedence
      [of "sampleNode [''karpenter.sh/capacity-type'' \<mapsto> ''spot'',
                       ''eks.amazonaws.com/capacityType'' \<mapsto> ''ON_DEMAND''] []"]
    capacity_type_precedence
      [of "sampleNode [''eks.amazonaws.com/capacityType'' \<mapsto> ''SPOT'',
                       ''eks.amazonaws.com/compute-type'' \<mapsto> ''fargate''] []"]
    capacity_type_precedence
      [of "sampleNode [''eks.amazonaws.com/compute-type'' \<mapsto> ''fargate''] []"]
    capacity_type_precedence
      [of "sampleNode [''node.kubernetes.io/instance-type'' \<mapsto> ''m5.large''] []"]
  by (simp add: sampleNode_def label_def IsOnDemand_def IsSpot_def IsFargate_def)

subsection \<open>Price resolution\<close>

lemma classification_ignores_price:
  "IsOnDemand (n\<lparr>Price := p\<rparr>) = IsOnDemand n"
  "IsSpot (n\<lparr>Price := p\<rparr>) = IsSpot n"
  "IsFargate (n\<lparr>Price := p\<rparr>) = IsFargate n"
  by (simp_all add: IsOnDemand_def IsSpot_def IsFargate_def label_def)

lemma single_pod_shape:
  assumes "length (pods n) = 1"
    and "FargateCapacityProvisioned (hd (pods n)) = Some (cpu, mem)"
  shows "\<exists>p c m. pods n = [p] \<and> FargateCapacityProvisioned p = Some (c, m)"
proof -
  from assms(1) obtain p where "pods n = [p]"
    by (cases "pods n") auto
  with assms(2) show ?thesis by auto
qed

lemma update_price_unclassified:
  assumes "\<not> IsOnDemand n" "\<not> IsSpot n" "\<not> IsFargate n"
  shows "Price (UpdatePrice sprintf pr n) = NaN"
  using assms by (simp add: UpdatePrice_def Let_def classification_ignores_price)

lemma update_price_fargate_no_single_shape:
  assumes "\<not> IsOnDemand n" "\<not> IsSpot n"
    and "\<not> (\<exists>p c m. pods n = [p] \<and> FargateCapacityProvisioned p = Some (c, m))"
  shows "Price (UpdatePrice sprintf pr n) = NaN"
proof (cases "IsFargate n \<and> length (pods n) = 1")
  case False
  with assms(1,2) show ?thesis
    by (auto simp: UpdatePrice_def Let_def classification_ignores_price)
next
  case True
  with assms(3) have "FargateCapacityProvisioned (hd (pods n)) = None"
    using single_pod_shape [of n] by (cases "FargateCapacityProvisioned (hd (pods n))") auto
  with True assms(1,2) show ?thesis
    by (simp add: UpdatePrice_def Let_def classification_ignores_price)
qed

text \<open>
  Claim C6. For a node classified Unknown, and for a node classified Fargate that does
  not host exactly one pod with an available provisioned (cpu, memory) shape,
  \<^verbatim>\<open>UpdatePrice\<close> leaves the price at NaN, whatever the repository holds: the price is
  not equal to itself and \<^verbatim>\<open>HasPrice\<close> is false. \<^verbatim>\<open>UpdatePrice\<close> has no error result.
\<close>

theorem update_price_unknown_sentinel:
  assumes "CapacityType n = NodeUnknownCapacityType \<or>
           (CapacityType n = NodeFargate \<and>
            \<not> (\<exists>p c m. pods n = [p] \<and> FargateCapacityProvisioned p = Some (c, m)))"
  shows "Price (UpdatePrice sprintf pr n) = NaN \<and>
         \<not> feq (Price (UpdatePrice sprintf pr n)) (Price (UpdatePrice sprintf pr n)) \<and>
         \<not> HasPrice (UpdatePrice sprintf pr n)"
proof -
  have "Price (UpdatePrice sprintf pr n) = NaN"
    using assms
  proof
    assume "CapacityType n = NodeUnknownCapacityType"
    then have "\<not> IsOnDemand n" "\<not> IsSpot n" "\<not> IsFargate n"
      by (auto simp: CapacityType_def split: if_splits)
    then show ?thesis by (rule update_price_unclassified)
  next
    assume f: "CapacityType n = NodeFargate \<and>
            \<not> (\<exists>p c m. pods n = [p] \<and> FargateCapacityProvisioned p = Some (c, m))"
    then have "\<not> IsOnDemand n" "\<not> IsSpot n"
      by (auto simp: CapacityType_def split: if_splits)
    with f show ?thesis by (blast intro: update_price_fargate_no_single_shape)
  qed
  then show ?thesis by (simp add: HasPrice_def)
qed

theorem update_price_unknown_sentinel_witness:
  "CapacityType (sampleNode [''node.kubernetes.io/instance-type'' \<mapsto> ''m5.large''] []) =
     NodeUnknownCapacityType \<and>
   \<not> HasPrice (UpdatePrice (\<lambda>c m. ''shape'') sampleRepository
       (sampleNode [''node.kubernetes.io/instance-type'' \<mapsto> ''m5.large''] [])) \<and>
   CapacityType (sampleNode [''eks.amazonaws.com/compute-type'' \<mapsto> ''fargate'']
       [\<lparr>FargateCapacityProvisioned = Some (Fin 0.5, Fin 1)\<rparr>,
        \<lparr>FargateCapacityProvisioned = Some (Fin 0.25, Fin 2)\<rparr>]) = NodeFargate \<and>
   Price (UpdatePrice (\<lambda>c m. ''shape'') sampleRepository
       (sampleNode [''eks.amazonaws.com/compute-type'' \<mapsto> ''fargate'']
         [\<lparr>FargateCapacityProvisioned = Some (Fin 0.5, Fin 1)\<rparr>,
          \<lparr>FargateCapacityProvisioned = Some (Fin 0.25, Fin 2)\<rparr>])) = NaN \<and>
   \<not> HasPrice (UpdatePrice (\<lambda>c m. ''shape'') sampleRepository
       (sampleNode [''eks.amazonaws.com/compute-type'' \<mapsto> ''fargate'']
         [\<lparr>FargateCapacityProvisioned = Some (Fin 0.5, Fin 1)\<rparr>,
          \<lparr>FargateCapacityProvisioned = Some (Fin 0.25, Fin 2)\<rparr>])) \<and>
   CapacityType (sampleNode [''eks.amazonaws.com/compute-type'' \<mapsto> ''fargate'']
       [\<lparr>FargateCapacityProvisioned = None\<rparr>]) = NodeFargate \<and>
   \<not> HasPrice (UpdatePrice (\<lambda>c m. ''shape'') sampleRepository
       (sampleNode [''eks.amazonaws.com/compute-type'' \<mapsto> ''fargate'']
         [\<lparr>FargateCapacityProvisioned = None\<rparr>]))"
proof -
  let ?u = "sampleNode [''node.kubernetes.io/instance-type'' \<mapsto> ''m5.large''] []"
  let ?two = "sampleNode [''eks.amazonaws.com/compute-type'' \<mapsto> ''fargate'']
       [\<lparr>FargateCapacityProvisioned = Some (Fin 0.5, Fin 1)\<rparr>,
        \<lparr>FargateCapacityProvisioned = Some (Fin 0.25, Fin 2)\<rparr>]"
  let ?noshape = "sampleNode [''eks.amazonaws.com/compute-type'' \<mapsto> ''fargate'']
       [\<lparr>FargateCapacityProvisioned = None\<rparr>]"
  have c: "CapacityType ?u = NodeUnknownCapacityType" "CapacityType ?two = NodeFargate"
    "CapacityType ?noshape = NodeFargate"
    by (simp_all add: CapacityType_def IsOnDemand_def IsSpot_def IsFargate_def label_def
        sampleNode_def)
  have p: "\<not> (\<exists>p c m. pods ?two = [p] \<and> FargateCapacityProvisioned p = Some (c, m))"
    "\<not> (\<exists>p c m. pods ?noshape = [p] \<and> FargateCapacityProvisioned p = Some (c, m))"
    by (simp_all add: sampleNode_def)
  from c p
    update_price_unknown_sentinel [of ?u "\<lambda>c m. ''shape''" sampleRepository]
    update_price_unknown_sentinel [of ?two "\<lambda>c m. ''shape''" sampleRepository]
    update_price_unknown_sentinel [of ?noshape "\<lambda>c m. ''shape''" sampleRepository]
  show ?thesis by simp
qed

subsection \<open>The Fargate lookup\<close>

text \<open>
  Claim C7, as the code has it. \<^verbatim>\<open>FargatePrice(cpu, memory)\<close> returns \<^verbatim>\<open>(0, false)\<close> when
  either cached rate is zero, and otherwise \<^verbatim>\<open>(cpu * VCPUPerHour + memory * GBPerHour, true)\<close>
  in \<^verbatim>\<open>float64\<close> arithmetic: each product and the sum are rounded to binary64. With the
  rates 0.04048 and 0.004445 and the shape (0.5, 1.0) the price is the binary64 value
  7114966835305005 / 2 ^ 58, which prints as 0.024685000000000002; it is within
  1e-17 of 0.024685.
\<close>

theorem fargate_price_lookup_rounded:
  "((VCPUPerHour (fargatePrice pr) = Fin 0 \<or> GBPerHour (fargatePrice pr) = Fin 0) \<longrightarrow>
      FargatePrice pr cpu memory = (Fin 0, False)) \<and>
   (\<not> feq (VCPUPerHour (fargatePrice pr)) (Fin 0) \<and> \<not> feq (GBPerHour (fargatePrice pr)) (Fin 0) \<longrightarrow>
      FargatePrice pr cpu memory =
        (fadd (fmul cpu (VCPUPerHour (fargatePrice pr))) (fmul memory (GBPerHour (fargatePrice pr))), True)) \<and>
   (fargatePrice pr = \<lparr>VCPUPerHour = Fin v, GBPerHour = Fin g\<rparr> \<and> v \<noteq> 0 \<and> g \<noteq> 0 \<longrightarrow>
      FargatePrice pr (Fin c) (Fin m) = (fadd (round64 (c * v)) (round64 (m * g)), True)) \<and>
   (fargatePrice pr = \<lparr>VCPUPerHour = round64 0.04048, GBPerHour = round64 0.004445\<rparr> \<longrightarrow>
      FargatePrice pr (Fin 0.5) (Fin 1.0) = (Fin (7114966835305005 / 2 ^ 58), True) \<and>
      \<bar>7114966835305005 / 2 ^ 58 - (0.024685 :: real)\<bar> < 1 / 10 ^ 17)"
proof (intro conjI impI)
  assume "VCPUPerHour (fargatePrice pr) = Fin 0 \<or> GBPerHour (fargatePrice pr) = Fin 0"
  then show "FargatePrice pr cpu memory = (Fin 0, False)"
    by (auto simp: FargatePrice_def)
next
  assume "\<not> feq (VCPUPerHour (fargatePrice pr)) (Fin 0) \<and> \<not> feq (GBPerHour (fargatePrice pr)) (Fin 0)"
  then show "FargatePrice pr cpu memory =
        (fadd (fmul cpu (VCPUPerHour (fargatePrice pr))) (fmul memory (GBPerHour (fargatePrice pr))), True)"
    by (simp add: FargatePrice_def)
next
  assume "fargatePrice pr = \<lparr>VCPUPerHour = Fin v, GBPerHour = Fin g\<rparr> \<and> v \<noteq> 0 \<and> g \<noteq> 0"
  then show "FargatePrice pr (Fin c) (Fin m) = (fadd (round64 (c * v)) (round64 (m * g)), True)"
    by (simp add: FargatePrice_def)
next
  assume r: "fargatePrice pr = \<lparr>VCPUPerHour = round64 0.04048, GBPerHour = round64 0.004445\<rparr>"
  have "\<not> feq (round64 0.04048) (Fin 0)" "\<not> feq (round64 0.004445) (Fin 0)"
    by (simp_all add: round64_eval)
  with r show "FargatePrice pr (Fin 0.5) (Fin 1.0) = (Fin (7114966835305005 / 2 ^ 58), True)"
    by (simp only: FargatePrice_def FargatePrice.simps fmul_fadd_example if_False simp_thms)
next
  show "\<bar>7114966835305005 / 2 ^ 58 - (0.024685 :: real)\<bar> < 1 / 10 ^ 17"
    by simp
qed

theorem fargate_price_lookup_rounded_witness:
  "FargatePrice sampleRepository (Fin 0.5) (Fin 1.0) = (Fin (7114966835305005 / 2 ^ 58), True) \<and>
   FargatePrice sampleRepository PInf (Fin 4) =
     (fadd (fmul PInf (round64 0.04048)) (fmul (Fin 4) (round64 0.004445)), True) \<and>
   FargatePrice (NewRepository\<lparr>fargatePrice := \<lparr>VCPUPerHour = Fin 0.25, GBPerHour = Fin 0.125\<rparr>\<rparr>)
       (Fin 2) (Fin 4) = (fadd (round64 (2 * 0.25)) (round64 (4 * 0.125)), True) \<and>
   FargatePrice (NewRepository\<lparr>fargatePrice := \<lparr>VCPUPerHour = round64 0.04048, GBPerHour = Fin 0\<rparr>\<rparr>)
       (Fin 0.5) (Fin 1.0) = (Fin 0, False)"
proof -
  have r: "fargatePrice sampleRepository =
      \<lparr>VCPUPerHour = round64 0.04048, GBPerHour = round64 0.004445\<rparr>"
    by (simp add: sampleRepository_def)
  have nz: "\<not> feq (VCPUPerHour (fargatePrice sampleRepository)) (Fin 0)"
    "\<not> feq (GBPerHour (fargatePrice sampleRepository)) (Fin 0)"
    by (simp_all add: sampleRepository_def round64_eval)
  have d: "fargatePrice (NewRepository\<lparr>fargatePrice := \<lparr>VCPUPerHour = Fin 0.25, GBPerHour = Fin 0.125\<rparr>\<rparr>)
      = \<lparr>VCPUPerHour = Fin 0.25, GBPerHour = Fin 0.125\<rparr>" "(0.25 :: real) \<noteq> 0" "(0.125 :: real) \<noteq> 0"
    by simp_all
  have z: "GBPerHour (fargatePrice
      (NewRepository\<lparr>fargatePrice := \<lparr>VCPUPerHour = round64 0.04048, GBPerHour = Fin 0\<rparr>\<rparr>)) = Fin 0"
    by simp
  from r nz d z
    fargate_price_lookup_rounded [of sampleRepository "Fin 0.5" "Fin 1.0" "0.25" "0.125" 2 4]
    fargate_price_lookup_rounded [of sampleRepository PInf "Fin 4" "0.25" "0.125" 2 4]
    fargate_price_lookup_rounded
      [of "NewRepository\<lparr>fargatePrice := \<lparr>VCPUPerHour = Fin 0.25, GBPerHour = Fin 0.125\<rparr>\<rparr>"
          "Fin 0.5" "Fin 1.0" "0.25" "0.125" 2 4]
    fargate_price_lookup_rounded
      [of "NewRepository\<lparr>fargatePrice := \<lparr>VCPUPerHour = round64 0.04048, GBPerHour = Fin 0\<rparr>\<rparr>"
          "Fin 0.5" "Fin 1.0" "0.25" "0.125" 2 4]
  show ?thesis by simp
qed

text \<open>
  The claim as stated fails at its own example: the price returned there is not the
  \<^verbatim>\<open>float64\<close> value 0.024685 (the binary64 number nearest to 0.024685), but the next
  binary64 number above it.
\<close>

theorem fargate_price_example_counterexample:
  "fargatePrice sampleRepository =
     \<lparr>VCPUPerHour = round64 0.04048, GBPerHour = round64 0.004445\<rparr> \<and>
   FargatePrice sampleRepository (Fin 0.5) (Fin 1.0) = (Fin (7114966835305005 / 2 ^ 58), True) \<and>
   round64 0.024685 = Fin (7114966835305004 / 2 ^ 58) \<and>
   \<not> feq (fst (FargatePrice sampleRepository (Fin 0.5) (Fin 1.0))) (round64 0.024685)"
  by (simp add: sampleRepository_def FargatePrice_def round64_eval)

subsection \<open>The spot fetch\<close>

lemma spot_record_unusable:
  "\<not> usableSpot parseFloat sph \<Longrightarrow> spotRecord parseFloat prices sph = prices"
  by (auto simp: usableSpot_def spotRecord_def split: option.splits)

lemma spot_record_usable:
  assumes "parseFloat (ToString (sphSpotPrice sph)) = Some price" "sphTimestamp sph = Some ts"
  shows "spotEntry (spotRecord parseFloat prices sph) key =
         (if key = spotKey sph then Some price else spotEntry prices key)"
  using assms
  by (cases key) (auto simp: spotRecord_def spotEntry_def spotKey_def split: option.splits)

lemma spot_records_append:
  "spotRecords parseFloat prices (xs @ ys) =
   spotRecords parseFloat (spotRecords parseFloat prices xs) ys"
  by (induction xs arbitrary: prices) simp_all

lemma spot_records_filter:
  "spotRecords parseFloat prices (filter (usableSpot parseFloat) rs) =
   spotRecords parseFloat prices rs"
  by (induction rs arbitrary: prices) (simp_all add: spot_record_unusable)

lemma spot_records_none_usable:
  "list_all (\<lambda>r. \<not> usableSpot parseFloat r) rs \<Longrightarrow> spotRecords parseFloat prices rs = prices"
  by (induction rs) (simp_all add: spot_record_unusable)

lemma spot_records_other_keys:
  assumes "list_all (\<lambda>r. \<not> (usableSpot parseFloat r \<and> spotKey r = key)) post"
  shows "spotEntry (spotRecords parseFloat prices post) key = spotEntry prices key"
  using assms
proof (induction post arbitrary: prices)
  case Nil
  then show ?case by simp
next
  case (Cons r post)
  show ?case
  proof (cases "usableSpot parseFloat r")
    case False
    with Cons show ?thesis by (simp add: spot_record_unusable)
  next
    case True
    then obtain price ts where
      u: "parseFloat (ToString (sphSpotPrice r)) = Some price" "sphTimestamp r = Some ts"
      by (auto simp: usableSpot_def)
    from True Cons.prems have "spotKey r \<noteq> key" by simp
    with Cons spot_record_usable [where parseFloat = parseFloat and sph = r, OF u]
    show ?thesis by simp
  qed
qed

lemma spot_pages_ok:
  "spotPages parseFloat prices (map Inr outs) = Inr (spotRecords parseFloat prices (concat outs))"
  by (induction outs arbitrary: prices) (simp_all add: spot_records_append)

lemma spot_pages_filter:
  "spotPages parseFloat prices (map (map_sum id (filter (usableSpot parseFloat))) pages) =
   spotPages parseFloat prices pages"
proof (induction pages arbitrary: prices)
  case Nil
  show ?case by simp
next
  case (Cons pg pages)
  show ?case using Cons.IH by (cases pg) (simp_all add: spot_records_filter id_def)
qed

lemma spot_entry_nonempty: "spotEntry prices key = Some p \<Longrightarrow> prices \<noteq> Map.empty"
  by (auto simp: spotEntry_def)

lemma spot_last_wins:
  assumes "concat outs = pre @ sph # post"
    and "parseFloat (ToString (sphSpotPrice sph)) = Some price"
    and "sphTimestamp sph = Some ts"
    and "list_all (\<lambda>r. \<not> (usableSpot parseFloat r \<and> spotKey r = spotKey sph)) post"
  shows "\<exists>prices. AWSProvider_GetSpotPricing parseFloat (map Inr outs) = Inr prices \<and>
           spotEntry prices (spotKey sph) = Some price"
proof -
  let ?t = "spotRecords parseFloat Map.empty (concat outs)"
  have "?t = spotRecords parseFloat
               (spotRecord parseFloat (spotRecords parseFloat Map.empty pre) sph) post"
    by (simp add: assms(1) spot_records_append)
  then have e: "spotEntry ?t (spotKey sph) = Some price"
    using spot_records_other_keys [OF assms(4)]
      spot_record_usable [where parseFloat = parseFloat and sph = sph, OF assms(2,3)]
    by simp
  then have "?t \<noteq> Map.empty" by (rule spot_entry_nonempty)
  with e show ?thesis
    by (simp add: AWSProvider_GetSpotPricing_def spot_pages_ok)
qed

lemma spot_empty_is_error:
  "list_all (\<lambda>r. \<not> usableSpot parseFloat r) (concat outs) \<Longrightarrow>
   AWSProvider_GetSpotPricing parseFloat (map Inr outs) = Inl (Err ''no spot pricing found'')"
  by (simp add: AWSProvider_GetSpotPricing_def spot_pages_ok spot_records_none_usable)

lemma spot_result_nonempty:
  "AWSProvider_GetSpotPricing parseFloat pages = Inr prices \<Longrightarrow> prices \<noteq> Map.empty"
  by (auto simp: AWSProvider_GetSpotPricing_def split: sum.splits if_splits)

text \<open>
  Claim C9. In the spot fetch a record whose price string does not parse, or whose
  timestamp is missing, is skipped: it leaves the table as it is, and dropping all such
  records from the pages changes nothing in what the fetch returns. When the pages
  arrive without error, the table returned holds, at the (instance type, zone) key of
  a usable record after which no usable record has the same key, that record's price:
  the last one in iteration order wins.
\<close>

theorem spot_fetch_skips_and_last_wins:
  "(\<not> usableSpot parseFloat r \<longrightarrow> spotRecord parseFloat prices0 r = prices0) \<and>
   AWSProvider_GetSpotPricing parseFloat (map (map_sum id (filter (usableSpot parseFloat))) pages) =
     AWSProvider_GetSpotPricing parseFloat pages \<and>
   (concat outs = pre @ sph # post \<and>
    parseFloat (ToString (sphSpotPrice sph)) = Some price \<and> sphTimestamp sph = Some ts \<and>
    list_all (\<lambda>r. \<not> (usableSpot parseFloat r \<and> spotKey r = spotKey sph)) post \<longrightarrow>
      (\<exists>prices zones. AWSProvider_GetSpotPricing parseFloat (map Inr outs) = Inr prices \<and>
         prices (sphInstanceType sph) = Some zones \<and>
         zones (ToString (sphAvailabilityZone sph)) = Some price))"
proof (intro conjI impI)
  assume "\<not> usableSpot parseFloat r"
  then show "spotRecord parseFloat prices0 r = prices0" by (rule spot_record_unusable)
next
  show "AWSProvider_GetSpotPricing parseFloat (map (map_sum id (filter (usableSpot parseFloat))) pages) =
     AWSProvider_GetSpotPricing parseFloat pages"
    by (simp only: AWSProvider_GetSpotPricing_def spot_pages_filter)
next
  assume a: "concat outs = pre @ sph # post \<and>
    parseFloat (ToString (sphSpotPrice sph)) = Some price \<and> sphTimestamp sph = Some ts \<and>
    list_all (\<lambda>r. \<not> (usableSpot parseFloat r \<and> spotKey r = spotKey sph)) post"
  then obtain prices where
    p: "AWSProvider_GetSpotPricing parseFloat (map Inr outs) = Inr prices"
       "spotEntry prices (spotKey sph) = Some price"
    using spot_last_wins [of outs pre sph post parseFloat price ts] by blast
  from p(2) obtain zones where "prices (sphInstanceType sph) = Some zones"
    "zones (ToString (sphAvailabilityZone sph)) = Some price"
    by (auto simp: spotEntry_def spotKey_def split: option.splits)
  with p(1) show "\<exists>prices zones. AWSProvider_GetSpotPricing parseFloat (map Inr outs) = Inr prices \<and>
         prices (sphInstanceType sph) = Some zones \<and>
         zones (ToString (sphAvailabilityZone sph)) = Some price"
    by blast
qed

theorem spot_fetch_skips_and_last_wins_witness:
  "\<not> usableSpot sampleParseFloat (sampleSpot ''m5.large'' ''us-east-1a'' ''n/a'' (Some 1)) \<and>
   spotRecord sampleParseFloat [''c5.large'' \<mapsto> [''us-east-1b'' \<mapsto> round64 0.03]]
       (sampleSpot ''m5.large'' ''us-east-1a'' ''n/a'' (Some 1)) =
     [''c5.large'' \<mapsto> [''us-east-1b'' \<mapsto> round64 0.03]] \<and>
   (\<exists>prices zones.
      AWSProvider_GetSpotPricing sampleParseFloat
        (map Inr [[sampleSpot ''m5.large'' ''us-east-1a'' ''0.03'' (Some 1),
                   sampleSpot ''m5.large'' ''us-east-1a'' ''n/a'' (Some 2)],
                  [sampleSpot ''m5.large'' ''us-east-1a'' ''0.035'' (Some 3),
                   sampleSpot ''m5.large'' ''us-east-1a'' ''0.99'' None,
                   sampleSpot ''m5.large'' ''us-east-1b'' ''0.096'' (Some 4)]]) = Inr prices \<and>
      prices ''m5.large'' = Some zones \<and> zones ''us-east-1a'' = Some (round64 0.035))"
proof -
  let ?bad = "sampleSpot ''m5.large'' ''us-east-1a'' ''n/a'' (Some 1)"
  let ?sph = "sampleSpot ''m5.large'' ''us-east-1a'' ''0.035'' (Some 3)"
  let ?pre = "[sampleSpot ''m5.large'' ''us-east-1a'' ''0.03'' (Some 1),
               sampleSpot ''m5.large'' ''us-east-1a'' ''n/a'' (Some 2)]"
  let ?post = "[sampleSpot ''m5.large'' ''us-east-1a'' ''0.99'' None,
                sampleSpot ''m5.large'' ''us-east-1b'' ''0.096'' (Some 4)]"
  let ?outs = "[?pre, ?sph # ?post]"
  have h1: "\<not> usableSpot sampleParseFloat ?bad"
    by (simp add: usableSpot_def sampleSpot_def sampleParseFloat_def ToString_def)
  have h2: "concat ?outs = ?pre @ ?sph # ?post" by simp
  have h3: "sampleParseFloat (ToString (sphSpotPrice ?sph)) = Some (round64 0.035)"
    by (simp add: sampleSpot_def sampleParseFloat_def ToString_def)
  have h4: "sphTimestamp ?sph = Some 3" by (simp add: sampleSpot_def)
  have h5: "list_all (\<lambda>r. \<not> (usableSpot sampleParseFloat r \<and> spotKey r = spotKey ?sph)) ?post"
    by (simp add: usableSpot_def spotKey_def sampleSpot_def sampleParseFloat_def ToString_def)
  have k: "sphInstanceType ?sph = ''m5.large''" "ToString (sphAvailabilityZone ?sph) = ''us-east-1a''"
    by (simp_all add: sampleSpot_def ToString_def)
  from spot_fetch_skips_and_last_wins
         [of sampleParseFloat ?bad "[''c5.large'' \<mapsto> [''us-east-1b'' \<mapsto> round64 0.03]]" "[]"
             ?outs ?pre ?sph ?post "round64 0.035" 3]
       h1 h2 h3 h4 h5
  show ?thesis unfolding k by simp
qed

subsection \<open>The Fargate page parser\<close>

lemma fargate_dimension_skipped:
  "skippedPrice parseFloat usd \<Longrightarrow>
   fargateDimensions parseFloat name fp (usd # rest) = fargateDimensions parseFloat name fp rest"
  by (cases "parseFloat usd") (simp_all add: skippedPrice_def)

lemma fargate_dimensions_all_skipped:
  "list_all (skippedPrice parseFloat) usds \<Longrightarrow> fargateDimensions parseFloat name fp usds = Inr fp"
  by (induction usds) (simp_all add: fargate_dimension_skipped del: fargateDimensions.simps(2))

lemma parse_fargate_page_skips_inside:
  assumes "unmarshal outer = Inr pItem"
    and "list_all (skippedPrice parseFloat) (dimensions (FargateTerms pItem))"
  shows "parseFargatePage unmarshal parseFloat fp (pre @ outer # post) =
         parseFargatePage unmarshal parseFloat fp (pre @ post)"
proof (induction pre arbitrary: fp)
  case Nil
  show ?case using assms by (simp add: fargate_dimensions_all_skipped)
next
  case (Cons a pre)
  show ?case
    by (simp add: Cons.IH split: sum.splits)
qed

text \<open>
  Claim C10. In \<^verbatim>\<open>parseFargatePage\<close> a price dimension whose USD string does not parse, or
  parses to zero, is passed over before the usage type is compared with the two markers,
  whatever the usage type is. So a record whose usage type contains \<^verbatim>\<open>Fargate\<close> and neither
  \<^verbatim>\<open>vCPU-Hours\<close> nor \<^verbatim>\<open>GB-Hours\<close>, and whose dimensions all have such prices, raises no
  error: alone on a page it leaves the price as it was, and anywhere on a page the
  result is the one of the page without it.
\<close>

theorem fargate_zero_or_malformed_price_never_fatal:
  "(skippedPrice parseFloat usd \<longrightarrow>
      fargateDimensions parseFloat name fp (usd # rest) = fargateDimensions parseFloat name fp rest) \<and>
   (unmarshal outer = Inr pItem \<and> Contains (UsageType pItem) ''Fargate'' \<and>
    \<not> Contains (UsageType pItem) ''vCPU-Hours'' \<and> \<not> Contains (UsageType pItem) ''GB-Hours'' \<and>
    list_all (skippedPrice parseFloat) (dimensions (FargateTerms pItem)) \<longrightarrow>
      parseFargatePage unmarshal parseFloat fp [outer] = Inr fp \<and>
      parseFargatePage unmarshal parseFloat fp (pre @ outer # post) =
        parseFargatePage unmarshal parseFloat fp (pre @ post))"
proof (intro conjI impI)
  assume "skippedPrice parseFloat usd"
  then show "fargateDimensions parseFloat name fp (usd # rest) =
             fargateDimensions parseFloat name fp rest"
    by (rule fargate_dimension_skipped)
next
  assume a: "unmarshal outer = Inr pItem \<and> Contains (UsageType pItem) ''Fargate'' \<and>
    \<not> Contains (UsageType pItem) ''vCPU-Hours'' \<and> \<not> Contains (UsageType pItem) ''GB-Hours'' \<and>
    list_all (skippedPrice parseFloat) (dimensions (FargateTerms pItem))"
  then show "parseFargatePage unmarshal parseFloat fp [outer] = Inr fp"
    using parse_fargate_page_skips_inside [of unmarshal outer pItem parseFloat fp "[]" "[]"]
    by simp
  from a show "parseFargatePage unmarshal parseFloat fp (pre @ outer # post) =
        parseFargatePage unmarshal parseFloat fp (pre @ post)"
    by (simp add: parse_fargate_page_skips_inside)
qed

theorem fargate_zero_or_malformed_price_never_fatal_witness:
  "skippedPrice sampleParseFloat ''0.0000000000'' \<and> skippedPrice sampleParseFloat ''n/a'' \<and>
   Contains ''USE1-Fargate-Other-Hours'' ''Fargate'' \<and>
   \<not> Contains ''USE1-Fargate-Other-Hours'' ''vCPU-Hours'' \<and>
   \<not> Contains ''USE1-Fargate-Other-Hours'' ''GB-Hours'' \<and>
   parseFargatePage sampleUnmarshalFargate sampleParseFloat
       \<lparr>VCPUPerHour = round64 0.04048, GBPerHour = round64 0.004445\<rparr> [''doc-drift-free'']
     = Inr \<lparr>VCPUPerHour = round64 0.04048, GBPerHour = round64 0.004445\<rparr>"
proof -
  let ?item = "\<lparr>UsageType = ''USE1-Fargate-Other-Hours'',
             FargateTerms = [(''term1'', [(''dim1'', ''0.0000000000''), (''dim2'', ''n/a'')])]\<rparr>"
  have h0: "skippedPrice sampleParseFloat ''0.0000000000''" "skippedPrice sampleParseFloat ''n/a''"
    by (simp_all add: skippedPrice_def sampleParseFloat_def)
  have h1: "sampleUnmarshalFargate ''doc-drift-free'' = Inr ?item"
    by (simp add: sampleUnmarshalFargate_def)
  have h2: "Contains (UsageType ?item) ''Fargate''"
    "\<not> Contains (UsageType ?item) ''vCPU-Hours''" "\<not> Contains (UsageType ?item) ''GB-Hours''"
    by simp_all
  have h3: "list_all (skippedPrice sampleParseFloat) (dimensions (FargateTerms ?item))"
    using h0 by (simp add: dimensions_def)
  from fargate_zero_or_malformed_price_never_fatal
         [of sampleParseFloat "''0.0000000000''" "''USE1-Fargate-Other-Hours''"
             "\<lparr>VCPUPerHour = round64 0.04048, GBPerHour = round64 0.004445\<rparr>" "[]"
             sampleUnmarshalFargate "''doc-drift-free''" ?item "[]" "[]"]
       h0 h1 h2 h3
  show ?thesis by simp
qed


subsection \<open>Empty results\<close>

lemma on_demand_result_nonempty:
  "AWSProvider_GetOnDemandPricing unmarshal parseFloat sharedPages metalPages = Inr prices \<Longrightarrow>
   prices \<noteq> Map.empty"
  by (auto simp: AWSProvider_GetOnDemandPricing_def split: sum.splits if_splits)

lemma on_demand_empty_is_error:
  "fetchOnDemandPricing unmarshal parseFloat sharedPages = Inr t1 \<Longrightarrow>
   fetchOnDemandPricing unmarshal parseFloat metalPages = Inr t2 \<Longrightarrow>
   t1 = Map.empty \<or> t2 = Map.empty \<Longrightarrow>
   AWSProvider_GetOnDemandPricing unmarshal parseFloat sharedPages metalPages =
     Inl (Err ''no on-demand pricing found'')"
  by (auto simp: AWSProvider_GetOnDemandPricing_def)

lemma parse_fargate_page_irrelevant:
  "list_all (irrelevantRecord unmarshal) page \<Longrightarrow>
   parseFargatePage unmarshal parseFloat fp page = Inr fp"
  by (induction page) (auto simp: irrelevantRecord_def split: sum.splits)

lemma fargate_pages_irrelevant:
  "list_all (irrelevantRecord unmarshal) (concat outs) \<Longrightarrow>
   fargatePages unmarshal parseFloat fp (map Inr outs) = Returned (Inr fp)"
  by (induction outs) (simp_all add: parse_fargate_page_irrelevant)

lemma fargate_fetch_irrelevant:
  "list_all (irrelevantRecord unmarshal) (concat priceLists) \<Longrightarrow>
   AWSProvider_GetFargatePricing unmarshal parseFloat (map Inr priceLists) =
     Returned (Inr \<lparr>VCPUPerHour = Fin 0, GBPerHour = Fin 0\<rparr>)"
  by (simp add: AWSProvider_GetFargatePricing_def fargate_pages_irrelevant)

text \<open>
  Claim C3 against the code. The on-demand and the spot fetch return an error when they
  end with an empty table (the two lemmas \<open>on_demand_empty_is_error\<close> and
  \<open>spot_empty_is_error\<close> above), and \<^verbatim>\<open>GetFargatePricing\<close> has no such test. One page with
  one record that is not a Fargate record: the fetch returns the zero \<^verbatim>\<open>FargatePrice\<close>
  with a nil error, the refresh stores it over the rates the repository had, with a new
  timestamp, and the lookup reports no price. On empty pages the two other fetches
  return their error.
\<close>

theorem fargate_empty_fetch_is_accepted:
  "AWSProvider_GetFargatePricing sampleUnmarshalFargate sampleParseFloat [Inr [''doc-cluster'']] =
     Returned (Inr \<lparr>VCPUPerHour = Fin 0, GBPerHour = Fin 0\<rparr>) \<and>
   UpdateFargatePricing
       (sampleProvider\<lparr>GetFargatePricing := Inr \<lparr>VCPUPerHour = Fin 0, GBPerHour = Fin 0\<rparr>\<rparr>)
       10 sampleRepository =
     (sampleRepository\<lparr>fargatePrice := \<lparr>VCPUPerHour = Fin 0, GBPerHour = Fin 0\<rparr>,
                        fargateUpdateTime := 10\<rparr>, None) \<and>
   FargatePrice
       (sampleRepository\<lparr>fargatePrice := \<lparr>VCPUPerHour = Fin 0, GBPerHour = Fin 0\<rparr>,
                          fargateUpdateTime := 10\<rparr>) (Fin 0.5) (Fin 1.0) = (Fin 0, False) \<and>
   AWSProvider_GetSpotPricing sampleParseFloat [Inr []] = Inl (Err ''no spot pricing found'') \<and>
   AWSProvider_GetOnDemandPricing sampleUnmarshalOnDemand sampleParseFloat
       [Inr [''doc-m5-large'']] [Inr []] = Inl (Err ''no on-demand pricing found'')"
  by (simp add: AWSProvider_GetFargatePricing_def sampleUnmarshalFargate_def
      UpdateFargatePricing_def sampleProvider_def FargatePrice_def
      AWSProvider_GetSpotPricing_def AWSProvider_GetOnDemandPricing_def fetchOnDemandPricing_def
      sampleUnmarshalOnDemand_def)

subsection \<open>Successful refreshes\<close>

lemma refresh_category_success:
  assumes "snd (refreshCategory g prov now pr) = None"
  shows "lastUpdated g (fst (refreshCategory g prov now pr)) = now"
  using assms
  by (cases g)
    (auto simp: UpdateOnDemandPricing_def UpdateSpotPricing_def UpdateFargatePricing_def
       OnDemandLastUpdated_def SpotLastUpdated_def FargateLastUpdated_def split: sum.splits)

lemma refresh_category_stamps:
  assumes "onDemandUpdateTime pr \<le> t \<and> spotUpdateTime pr \<le> t \<and> fargateUpdateTime pr \<le> t"
    and "t < now"
  shows "onDemandUpdateTime (fst (refreshCategory g prov now pr)) \<le> now \<and>
         spotUpdateTime (fst (refreshCategory g prov now pr)) \<le> now \<and>
         fargateUpdateTime (fst (refreshCategory g prov now pr)) \<le> now"
  using assms
  by (cases g)
    (auto simp: UpdateOnDemandPricing_def UpdateSpotPricing_def UpdateFargatePricing_def
       split: sum.splits)

lemma run_refreshes_stamps:
  assumes "clockForward t (map (\<lambda>s. snd (snd s)) steps @ [now])"
    and "onDemandUpdateTime pr \<le> t \<and> spotUpdateTime pr \<le> t \<and> fargateUpdateTime pr \<le> t"
  shows "onDemandUpdateTime (runRefreshes steps pr) < now \<and>
         spotUpdateTime (runRefreshes steps pr) < now \<and>
         fargateUpdateTime (runRefreshes steps pr) < now"
  using assms
proof (induction steps arbitrary: t pr)
  case Nil
  then show ?case by simp
next
  case (Cons s steps)
  obtain g prov t1 where s: "s = (g, prov, t1)" by (cases s) auto
  from Cons.prems(1) s have c: "t < t1" "clockForward t1 (map (\<lambda>s. snd (snd s)) steps @ [now])"
    by simp_all
  from refresh_category_stamps [OF Cons.prems(2) c(1)]
  have "onDemandUpdateTime (fst (refreshCategory g prov t1 pr)) \<le> t1 \<and>
        spotUpdateTime (fst (refreshCategory g prov t1 pr)) \<le> t1 \<and>
        fargateUpdateTime (fst (refreshCategory g prov t1 pr)) \<le> t1" .
  from Cons.IH [OF c(2) this] s show ?case by simp
qed

lemma run_refreshes_last_updated:
  assumes "clockForward 0 (map (\<lambda>s. snd (snd s)) steps @ [now])"
  shows "lastUpdated g (runRefreshes steps NewRepository) < now"
proof -
  have "onDemandUpdateTime NewRepository \<le> 0 \<and> spotUpdateTime NewRepository \<le> 0 \<and>
        fargateUpdateTime NewRepository \<le> 0"
    by (simp add: NewRepository_def)
  from run_refreshes_stamps [OF assms this] show ?thesis
    by (cases g) (simp_all add: OnDemandLastUpdated_def SpotLastUpdated_def FargateLastUpdated_def)
qed

text \<open>
  Claim C4, as the code has it. Take any run of refreshes from a new repository, with a
  clock that moves forward, and a refresh after it that succeeds. The category's
  timestamp after the refresh is strictly later than before it, and the category's
  table is the one the provider returned. That table is not empty when it comes from
  the live provider's on-demand or spot fetch; the repository itself does not test it.
\<close>

theorem successful_refresh_advances_timestamp:
  assumes "clockForward 0 (map (\<lambda>s. snd (snd s)) steps @ [now])"
    and "snd (refreshCategory g prov now (runRefreshes steps NewRepository)) = None"
  shows "lastUpdated g (runRefreshes steps NewRepository) <
           lastUpdated g (fst (refreshCategory g prov now (runRefreshes steps NewRepository))) \<and>
         (g = RefreshOnDemand \<longrightarrow>
            GetOnDemandPricing prov =
              Inr (onDemandPrices (fst (refreshCategory g prov now (runRefreshes steps NewRepository)))) \<and>
            (GetOnDemandPricing prov =
               AWSProvider_GetOnDemandPricing unmarshal parseFloat sharedPages metalPages \<longrightarrow>
             onDemandPrices (fst (refreshCategory g prov now (runRefreshes steps NewRepository)))
               \<noteq> Map.empty)) \<and>
         (g = RefreshSpot \<longrightarrow>
            GetSpotPricing prov =
              Inr (spotPrices (fst (refreshCategory g prov now (runRefreshes steps NewRepository)))) \<and>
            (GetSpotPricing prov = AWSProvider_GetSpotPricing parseFloat spotPages' \<longrightarrow>
             spotPrices (fst (refreshCategory g prov now (runRefreshes steps NewRepository)))
               \<noteq> Map.empty)) \<and>
         (g = RefreshFargate \<longrightarrow>
            GetFargatePricing prov =
              Inr (fargatePrice (fst (refreshCategory g prov now (runRefreshes steps NewRepository)))))"
proof -
  let ?pr = "runRefreshes steps NewRepository"
  have "lastUpdated g ?pr < now"
    using assms(1) by (rule run_refreshes_last_updated)
  moreover have "lastUpdated g (fst (refreshCategory g prov now ?pr)) = now"
    using assms(2) by (rule refresh_category_success)
  ultimately have ts: "lastUpdated g ?pr < lastUpdated g (fst (refreshCategory g prov now ?pr))"
    by simp
  have od: "GetOnDemandPricing prov = Inr (onDemandPrices (fst (refreshCategory g prov now ?pr))) \<and>
      (GetOnDemandPricing prov =
         AWSProvider_GetOnDemandPricing unmarshal parseFloat sharedPages metalPages \<longrightarrow>
       onDemandPrices (fst (refreshCategory g prov now ?pr)) \<noteq> Map.empty)"
    if "g = RefreshOnDemand"
  proof -
    from that assms(2) obtain t where t: "GetOnDemandPricing prov = Inr t"
      by (cases "GetOnDemandPricing prov") (auto simp: UpdateOnDemandPricing_def)
    with that have "onDemandPrices (fst (refreshCategory g prov now ?pr)) = t"
      by (simp add: UpdateOnDemandPricing_def)
    with t on_demand_result_nonempty [of unmarshal parseFloat sharedPages metalPages t]
    show ?thesis by auto
  qed
  have sp: "GetSpotPricing prov = Inr (spotPrices (fst (refreshCategory g prov now ?pr))) \<and>
      (GetSpotPricing prov = AWSProvider_GetSpotPricing parseFloat spotPages' \<longrightarrow>
       spotPrices (fst (refreshCategory g prov now ?pr)) \<noteq> Map.empty)"
    if "g = RefreshSpot"
  proof -
    from that assms(2) obtain t where t: "GetSpotPricing prov = Inr t"
      by (cases "GetSpotPricing prov") (auto simp: UpdateSpotPricing_def)
    with that have "spotPrices (fst (refreshCategory g prov now ?pr)) = t"
      by (simp add: UpdateSpotPricing_def)
    with t spot_result_nonempty [of parseFloat spotPages' t]
    show ?thesis by auto
  qed
  have fg: "GetFargatePricing prov = Inr (fargatePrice (fst (refreshCategory g prov now ?pr)))"
    if "g = RefreshFargate"
  proof -
    from that assms(2) obtain t where t: "GetFargatePricing prov = Inr t"
      by (cases "GetFargatePricing prov") (auto simp: UpdateFargatePricing_def)
    with that show ?thesis
      by (simp add: UpdateFargatePricing_def)
  qed
  from ts od sp fg show ?thesis by blast
qed

theorem successful_refresh_advances_timestamp_witness:
  "clockForward 0 [10, 20, 30] \<and>
   snd (refreshCategory RefreshSpot sampleLiveProvider 30
          (runRefreshes [(RefreshSpot, sampleLiveProvider, 10), (RefreshOnDemand, sampleLiveProvider, 20)]
             NewRepository)) = None \<and>
   lastUpdated RefreshSpot
       (runRefreshes [(RefreshSpot, sampleLiveProvider, 10), (RefreshOnDemand, sampleLiveProvider, 20)]
          NewRepository) = 10 \<and>
   lastUpdated RefreshSpot
       (runRefreshes [(RefreshSpot, sampleLiveProvider, 10), (RefreshOnDemand, sampleLiveProvider, 20)]
          NewRepository) <
     lastUpdated RefreshSpot
       (fst (refreshCategory RefreshSpot sampleLiveProvider 30
          (runRefreshes [(RefreshSpot, sampleLiveProvider, 10), (RefreshOnDemand, sampleLiveProvider, 20)]
             NewRepository))) \<and>
   spotPrices
       (fst (refreshCategory RefreshSpot sampleLiveProvider 30
          (runRefreshes [(RefreshSpot, sampleLiveProvider, 10), (RefreshOnDemand, sampleLiveProvider, 20)]
             NewRepository))) \<noteq> Map.empty \<and>
   lastUpdated RefreshOnDemand
       (runRefreshes [(RefreshSpot, sampleLiveProvider, 10), (RefreshOnDemand, sampleLiveProvider, 20)]
          NewRepository) <
     lastUpdated RefreshOnDemand
       (fst (refreshCategory RefreshOnDemand sampleLiveProvider 30
          (runRefreshes [(RefreshSpot, sampleLiveProvider, 10), (RefreshOnDemand, sampleLiveProvider, 20)]
             NewRepository))) \<and>
   onDemandPrices
       (fst (refreshCategory RefreshOnDemand sampleLiveProvider 30
          (runRefreshes [(RefreshSpot, sampleLiveProvider, 10), (RefreshOnDemand, sampleLiveProvider, 20)]
             NewRepository))) \<noteq> Map.empty \<and>
   lastUpdated RefreshFargate
       (runRefreshes [(RefreshSpot, sampleLiveProvider, 10), (RefreshOnDemand, sampleLiveProvider, 20)]
          NewRepository) <
     lastUpdated RefreshFargate
       (fst (refreshCategory RefreshFargate sampleLiveProvider 30
          (runRefreshes [(RefreshSpot, sampleLiveProvider, 10), (RefreshOnDemand, sampleLiveProvider, 20)]
             NewRepository)))"
proof -
  let ?steps = "[(RefreshSpot, sampleLiveProvider, 10), (RefreshOnDemand, sampleLiveProvider, 20)]"
  have sp: "GetSpotPricing sampleLiveProvider =
        Inr [''m5.large'' \<mapsto> [''us-east-1a'' \<mapsto> round64 0.03]]"
    by (simp add: sampleLiveProvider_def AWSProvider_GetSpotPricing_def spotRecord_def
        sampleSpot_def sampleParseFloat_def ToString_def)
  have od: "GetOnDemandPricing sampleLiveProvider =
        Inr [''m5.large'' \<mapsto> round64 0.096, ''m5.metal'' \<mapsto> round64 4.608]"
    by (simp add: sampleLiveProvider_def AWSProvider_GetOnDemandPricing_def
        fetchOnDemandPricing_def sampleUnmarshalOnDemand_def sampleParseFloat_def dimensions_def
        round64_eval)
  have fg: "GetFargatePricing sampleLiveProvider =
        Inr \<lparr>VCPUPerHour = round64 0.04048, GBPerHour = round64 0.004445\<rparr>"
    by (simp add: sampleLiveProvider_def)
  have g: "GetSpotPricing sampleLiveProvider =
      AWSProvider_GetSpotPricing sampleParseFloat
          [Inr [sampleSpot ''m5.large'' ''us-east-1a'' ''0.03'' (Some 1)]]"
    "GetOnDemandPricing sampleLiveProvider =
      AWSProvider_GetOnDemandPricing sampleUnmarshalOnDemand sampleParseFloat
          [Inr [''doc-m5-large'']] [Inr [''doc-m5-metal'']]"
    by (simp_all add: sampleLiveProvider_def)
  have h1: "clockForward 0 (map (\<lambda>s. snd (snd s)) ?steps @ [30])" by simp
  have h2: "snd (refreshCategory RefreshSpot sampleLiveProvider 30
      (runRefreshes ?steps NewRepository)) = None"
    "snd (refreshCategory RefreshOnDemand sampleLiveProvider 30
      (runRefreshes ?steps NewRepository)) = None"
    "snd (refreshCategory RefreshFargate sampleLiveProvider 30
      (runRefreshes ?steps NewRepository)) = None"
    by (simp_all add: UpdateSpotPricing_def UpdateOnDemandPricing_def UpdateFargatePricing_def
        sp od fg)
  have h3: "lastUpdated RefreshSpot (runRefreshes ?steps NewRepository) = 10"
    by (simp add: UpdateSpotPricing_def UpdateOnDemandPricing_def sp od SpotLastUpdated_def)
  note t = successful_refresh_advances_timestamp
             [where steps = ?steps and now = 30 and prov = sampleLiveProvider
                and unmarshal = sampleUnmarshalOnDemand and parseFloat = sampleParseFloat
                and sharedPages = "[Inr [''doc-m5-large'']]"
                and metalPages = "[Inr [''doc-m5-metal'']]"
                and spotPages' = "[Inr [sampleSpot ''m5.large'' ''us-east-1a'' ''0.03'' (Some 1)]]",
              OF h1]
  from t [OF h2(1)] t [OF h2(2)] t [OF h2(3)] g h1 h2 h3
  show ?thesis by simp
qed

text \<open>
  The claim as stated fails: refreshing the spot category from the static provider
  succeeds, and the spot table afterwards is empty.
\<close>

theorem static_spot_refresh_counterexample:
  "snd (UpdateSpotPricing (StaticProvider [''m5.large'' \<mapsto> round64 0.096]) 1 NewRepository) = None \<and>
   spotPrices (fst (UpdateSpotPricing (StaticProvider [''m5.large'' \<mapsto> round64 0.096]) 1 NewRepository))
     = Map.empty"
  by (simp add: UpdateSpotPricing_def StaticProvider_def)

subsection \<open>Refreshing all three categories\<close>

lemma update_pricing_nothing_finished:
  "fst (UpdatePricing prov clock [] pending pr) = None"
  by (simp add: UpdatePricing_def)

text \<open>
  Claim C1 against the code. The sample provider's spot fetch fails and its two other
  fetches succeed. In the schedule where no goroutine has completed when the caller
  reads \<^verbatim>\<open>errs\<close> (the function never waits for them), \<^verbatim>\<open>UpdatePricing\<close> returns nil and
  the repository at the return is untouched; the two tables are only updated later.
  Had all three completed before the read, the result would be the spot error.
\<close>

theorem update_pricing_returns_without_waiting:
  "UpdatePricing sampleProvider (\<lambda>g. 5) [] [RefreshOnDemand, RefreshSpot, RefreshFargate]
       NewRepository =
     (None, NewRepository,
      NewRepository\<lparr>onDemandPrices := [''m5.large'' \<mapsto> round64 0.096], onDemandUpdateTime := 5,
                    fargatePrice := \<lparr>VCPUPerHour = round64 0.04048, GBPerHour = round64 0.004445\<rparr>,
                    fargateUpdateTime := 5\<rparr>) \<and>
   fst (UpdatePricing sampleProvider (\<lambda>g. 5) [RefreshOnDemand, RefreshSpot, RefreshFargate] []
          NewRepository) =
     Some (Err ''RequestError: send request failed'')"
  by (simp add: UpdatePricing_def UpdateOnDemandPricing_def UpdateSpotPricing_def
      UpdateFargatePricing_def NewRepository_def sampleProvider_def)

subsection \<open>Schema drift in the Fargate fetch\<close>

lemma fargate_pages_returned_error:
  "fargatePages unmarshal parseFloat fp pages = Returned (Inl err) \<Longrightarrow> Inl err \<in> set pages"
proof (induction pages arbitrary: fp)
  case Nil
  then show ?case by simp
next
  case (Cons pg pages)
  then show ?case
    by (cases pg) (auto split: sum.splits)
qed

text \<open>
  Claim C8 against the code. One page with one Fargate record whose usage type has
  neither marker and whose price is 0.0125: \<^verbatim>\<open>parseFargatePage\<close> returns nil with the
  error \<^verbatim>\<open>unsupported fargate price information found\<close>, and \<^verbatim>\<open>GetFargatePricing\<close>, which
  has stored that nil in \<^verbatim>\<open>price\<close>, panics on \<^verbatim>\<open>return *price, err\<close> instead of returning
  the error.
\<close>

theorem fargate_schema_drift_panics:
  "parseFargatePage sampleUnmarshalFargate sampleParseFloat
       \<lparr>VCPUPerHour = Fin 0, GBPerHour = Fin 0\<rparr> [''doc-drift''] =
     Inl (Err ''unsupported fargate price information found: USE1-Fargate-Other-Hours'') \<and>
   AWSProvider_GetFargatePricing sampleUnmarshalFargate sampleParseFloat [Inr [''doc-drift'']] =
     Panicked"
  by (simp add: AWSProvider_GetFargatePricing_def sampleUnmarshalFargate_def sampleParseFloat_def
      dimensions_def round64_eval)


end
